theory Spec2Isabelle
  imports Main "HOL-Library.Multiset"
begin

section \<open>The parsed document: JavaScript values\<close>

text \<open>
  \<^verbatim>\<open>ServerActionCreator.ts\<close> reads an OpenAPI description with \<^verbatim>\<open>yaml.load\<close> and keeps
  it as a value of type \<^verbatim>\<open>any\<close>. The schema nodes that \<^verbatim>\<open>schemaToTS\<close> visits and the
  document that \<^verbatim>\<open>resolveRef\<close> walks are such values, so they are modelled as one
  datatype of JavaScript values rather than as a typed schema.

  \<^item> An object is the list of its own properties in the order in which they were
    created, which for a parsed document is the order in which the document declares
    them; the names are distinct. \<^verbatim>\<open>Object.entries\<close> lists them in another order when
    names are array indices (see \<open>entries\<close>).
  \<^item> \<open>JBuiltin\<close> is a function or object of the JavaScript runtime, such as
    \<^verbatim>\<open>Object.prototype.toString\<close>, known by a name only. A parsed document contains none;
    \<open>resolveRef\<close> can return one when a segment of a reference names an inherited
    member. None of the member names that the program reads by itself (\<^verbatim>\<open>$ref\<close>,
    \<^verbatim>\<open>type\<close>, \<^verbatim>\<open>items\<close>, \<^verbatim>\<open>properties\<close>, \<^verbatim>\<open>required\<close>) is a member of a built-in.
  \<^item> Numbers are integers here. No operation of the program reads more of a number
    than whether it is truthy, so a non-integer number behaves as any non-zero integer
    and \<^verbatim>\<open>NaN\<close> as zero.
  \<^item> Strings are lists of 8-bit characters; the program's strings are ASCII in every
    example below.
\<close>

datatype jsval =
    JUndefined
  | JNull
  | JBool bool
  | JNum int
  | JStr string
  | JArr "jsval list"
  | JObj "(string \<times> jsval) list"
  | JBuiltin string

text \<open>The only exception the generator itself can raise in this model.\<close>

datatype error = TypeError

text \<open>
  A computation of the generator either returns a value, throws, or does not return at all.
  \<open>None\<close> stands for a recursion that has used up its fuel (see \<open>schemaToTS\<close>).
\<close>

type_synonym 'a result = "(error + 'a) option"

definition returns :: "'a \<Rightarrow> 'a result" where
  "returns x = Some (Inr x)"

definition throws :: "error \<Rightarrow> 'a result" where
  "throws e = Some (Inl e)"

definition bind_res :: "'a result \<Rightarrow> ('a \<Rightarrow> 'b result) \<Rightarrow> 'b result" where
  "bind_res m f = (case m of None \<Rightarrow> None | Some (Inl e) \<Rightarrow> Some (Inl e) | Some (Inr x) \<Rightarrow> f x)"

text \<open>
  \<^verbatim>\<open>xs.map(f)\<close> calls \<open>f\<close> on the elements from left to right: the first call that
  throws or does not return decides the outcome of the whole \<^verbatim>\<open>map\<close>.
\<close>

fun sequence_res :: "'a result list \<Rightarrow> 'a list result" where
  "sequence_res [] = returns []"
| "sequence_res (m # ms) =
     bind_res m (\<lambda>x. bind_res (sequence_res ms) (\<lambda>xs. returns (x # xs)))"

subsection \<open>Truthiness, property access, entries\<close>

text \<open>JavaScript's \<^verbatim>\<open>ToBoolean\<close>, as used by \<^verbatim>\<open>!x\<close>, \<^verbatim>\<open>x ? a : b\<close> and \<^verbatim>\<open>x || y\<close>.\<close>

fun truthy :: "jsval \<Rightarrow> bool" where
  "truthy JUndefined = False"
| "truthy JNull = False"
| "truthy (JBool b) = b"
| "truthy (JNum n) = (n \<noteq> 0)"
| "truthy (JStr s) = (s \<noteq> [])"
| "truthy (JArr xs) = True"
| "truthy (JObj kvs) = True"
| "truthy (JBuiltin b) = True"

fun nullish :: "jsval \<Rightarrow> bool" where
  "nullish JUndefined = True"
| "nullish JNull = True"
| "nullish v = False"

text \<open>\<^verbatim>\<open>a || b\<close>\<close>

definition js_or :: "jsval \<Rightarrow> jsval \<Rightarrow> jsval" where
  "js_or a b = (if truthy a then a else b)"

definition digit_char :: "nat \<Rightarrow> char" where
  "digit_char d = ''0123456789'' ! (d mod 10)"

text \<open>The decimal text of an array index, as in the property keys \<^verbatim>\<open>"0"\<close>, \<^verbatim>\<open>"1"\<close>, ...\<close>

function string_of_nat :: "nat \<Rightarrow> string" where
  "string_of_nat n =
     (if n < 10 then [digit_char n] else string_of_nat (n div 10) @ [digit_char n])"
  by pat_completeness auto
termination
  by (relation "measure id") auto

text \<open>The number that a string of decimal digits denotes.\<close>

definition digit_value :: "char \<Rightarrow> nat" where
  "digit_value c =
     (case map_of (zip ''0123456789'' [0, 1, 2, 3, 4, 5, 6, 7, 8, 9]) c of
        Some d \<Rightarrow> d
      | None \<Rightarrow> 0)"

definition nat_of_string :: "string \<Rightarrow> nat" where
  "nat_of_string s = fold (\<lambda>c n. 10 * n + digit_value c) s 0"

text \<open>
  An array index is a property name that is the canonical decimal text of an integer
  from 0 to \<open>2\<^sup>3\<^sup>2 - 2\<close>: \<^verbatim>\<open>"0"\<close>, \<^verbatim>\<open>"7"\<close>, \<^verbatim>\<open>"200"\<close>, but not \<^verbatim>\<open>"07"\<close> or \<^verbatim>\<open>"1.5"\<close>.
\<close>

definition is_array_index :: "string \<Rightarrow> bool" where
  "is_array_index k = (string_of_nat (nat_of_string k) = k \<and> nat_of_string k < 4294967295)"

text \<open>
  The order in which JavaScript lists the own properties of an object: first the
  properties whose names are array indices, in ascending numeric order, then the other
  properties in the order of their creation.
\<close>

definition own_property_order :: "(string \<times> jsval) list \<Rightarrow> (string \<times> jsval) list" where
  "own_property_order kvs =
     sort_key (\<lambda>kv. nat_of_string (fst kv)) (filter (\<lambda>kv. is_array_index (fst kv)) kvs)
     @ filter (\<lambda>kv. \<not> is_array_index (fst kv)) kvs"

text \<open>
  \<^verbatim>\<open>Object.entries(v)\<close> for a value that is not \<^verbatim>\<open>undefined\<close> or \<^verbatim>\<open>null\<close>: the own
  properties of an object, the indexed elements of an array, the indexed characters of a
  string, and nothing for a boolean, a number or a built-in (whose own properties are not
  enumerable).
\<close>

fun entries :: "jsval \<Rightarrow> (string \<times> jsval) list" where
  "entries (JObj kvs) = own_property_order kvs"
| "entries (JArr xs) = zip (map string_of_nat [0..<length xs]) xs"
| "entries (JStr s) = zip (map string_of_nat [0..<length s]) (map (\<lambda>c. JStr [c]) s)"
| "entries v = []"

text \<open>
  The own property \<open>k\<close> of a value, if it has one: a property of an object, an indexed
  element or the \<^verbatim>\<open>length\<close> of an array or string.
\<close>

fun own_lookup :: "jsval \<Rightarrow> string \<Rightarrow> jsval option" where
  "own_lookup (JObj kvs) k = map_of kvs k"
| "own_lookup (JArr xs) k =
     (if k = ''length'' then Some (JNum (int (length xs))) else map_of (entries (JArr xs)) k)"
| "own_lookup (JStr s) k =
     (if k = ''length'' then Some (JNum (int (length s))) else map_of (entries (JStr s)) k)"
| "own_lookup v k = None"

text \<open>
  \<^verbatim>\<open>schema.name\<close> for one of the names \<^verbatim>\<open>$ref\<close>, \<^verbatim>\<open>type\<close>, \<^verbatim>\<open>items\<close>,
  \<^verbatim>\<open>properties\<close>, \<^verbatim>\<open>required\<close> and a value that is not \<^verbatim>\<open>undefined\<close> or \<^verbatim>\<open>null\<close>:
  the own property, else \<^verbatim>\<open>undefined\<close>, since no built-in prototype has a member of such
  a name.
\<close>

definition own_prop :: "jsval \<Rightarrow> string \<Rightarrow> jsval" where
  "own_prop v k = (case own_lookup v k of Some x \<Rightarrow> x | None \<Rightarrow> JUndefined)"

text \<open>
  The built-in objects of the JavaScript runtime are not part of the program. They are a
  parameter of the model, a table \<open>rt\<close>: for a value \<open>v\<close> without an own property \<open>k\<close>,
  \<open>rt v k\<close> is what reading the member \<open>k\<close> along the prototype chain of \<open>v\<close> gives,
  a value or an exception thrown by an inherited accessor, and \<open>None\<close> if no prototype
  has a member \<open>k\<close>. For a built-in \<open>v\<close> the table holds all its members.
\<close>

type_synonym runtime = "jsval \<Rightarrow> string \<Rightarrow> (error + jsval) option"

text \<open>
  \<^verbatim>\<open>current[part]\<close> with any key, for any value: reading a property of \<^verbatim>\<open>undefined\<close> or
  \<^verbatim>\<open>null\<close> throws a \<^verbatim>\<open>TypeError\<close>; an own property comes before an inherited member;
  a key that names neither gives \<^verbatim>\<open>undefined\<close>.
\<close>

definition js_get :: "runtime \<Rightarrow> jsval \<Rightarrow> string \<Rightarrow> error + jsval" where
  "js_get rt v k =
     (if nullish v then Inl TypeError
      else case own_lookup v k of
             Some x \<Rightarrow> Inr x
           | None \<Rightarrow> (case rt v k of Some r \<Rightarrow> r | None \<Rightarrow> Inr JUndefined))"

subsection \<open>String primitives\<close>

text \<open>\<^verbatim>\<open>parts.join(sep)\<close> on an array of strings.\<close>

fun js_join :: "string \<Rightarrow> string list \<Rightarrow> string" where
  "js_join sep [] = []"
| "js_join sep [x] = x"
| "js_join sep (x # y # ys) = x @ sep @ js_join sep (y # ys)"

text \<open>
  The first occurrence of a pattern in a string: the text in front of it and the text behind it.
\<close>

fun split_at_first :: "string \<Rightarrow> string \<Rightarrow> (string \<times> string) option" where
  "split_at_first pat [] = (if pat = [] then Some ([], []) else None)"
| "split_at_first pat (c # cs) =
     (if take (length pat) (c # cs) = pat then Some ([], drop (length pat) (c # cs))
      else map_option (\<lambda>(pre, post). (c # pre, post)) (split_at_first pat cs))"

text \<open>
  The replacement text of \<^verbatim>\<open>String.prototype.replace\<close> with a string pattern
  (\<^verbatim>\<open>GetSubstitution\<close> without captures): \<^verbatim>\<open>$$\<close> is a dollar sign, \<^verbatim>\<open>$&\<close> the matched
  text, \<^verbatim>\<open>$`\<close> the text in front of the match, \<^verbatim>\<open>$'\<close> the text behind it; every other
  character, and a dollar sign followed by anything else, stands for itself.
\<close>

fun get_substitution :: "string \<Rightarrow> string \<Rightarrow> string \<Rightarrow> string \<Rightarrow> string" where
  "get_substitution matched pre post [] = []"
| "get_substitution matched pre post [c] = [c]"
| "get_substitution matched pre post (c # d # r) =
     (if c = CHR ''$'' \<and> d = CHR ''$'' then CHR ''$'' # get_substitution matched pre post r
      else if c = CHR ''$'' \<and> d = CHR ''&'' then matched @ get_substitution matched pre post r
      else if c = CHR ''$'' \<and> d = CHR 0x60 then pre @ get_substitution matched pre post r
      else if c = CHR ''$'' \<and> d = CHR 0x27 then post @ get_substitution matched pre post r
      else c # get_substitution matched pre post (d # r))"

text \<open>
  \<^verbatim>\<open>s.replace(pat, repl)\<close> with a string pattern: only the first occurrence is replaced;
  a string without the pattern is returned unchanged.
\<close>

definition js_replace :: "string \<Rightarrow> string \<Rightarrow> string \<Rightarrow> string" where
  "js_replace pat repl s =
     (case split_at_first pat s of
        None \<Rightarrow> s
      | Some (pre, post) \<Rightarrow> pre @ get_substitution pat pre post repl @ post)"

text \<open>\<^verbatim>\<open>s.split(d)\<close> with a one-character separator: never an empty array.\<close>

fun js_split :: "char \<Rightarrow> string \<Rightarrow> string list" where
  "js_split d [] = [[]]"
| "js_split d (c # cs) =
     (if c = d then [] # js_split d cs
      else case js_split d cs of w # ws \<Rightarrow> (c # w) # ws | [] \<Rightarrow> [[c]])"

section \<open>Reference Resolver\<close>

text \<open>
  \<^verbatim>\<open>
  function resolveRef(ref: string, doc: any): OpenAPISchema {
      const parts = ref.replace('#/', '').split('/');
      let current = doc;
      for (const part of parts) {
          current = current[part];
      }
      return current;
  }
  \<close>
\<close>

definition ref_parts :: "string \<Rightarrow> string list" where
  "ref_parts ref = js_split CHR ''/'' (js_replace ''#/'' [] ref)"

fun walk :: "runtime \<Rightarrow> jsval \<Rightarrow> string list \<Rightarrow> error + jsval" where
  "walk rt current [] = Inr current"
| "walk rt current (part # parts) =
     (case js_get rt current part of Inl e \<Rightarrow> Inl e | Inr v \<Rightarrow> walk rt v parts)"

definition resolveRef :: "runtime \<Rightarrow> string \<Rightarrow> jsval \<Rightarrow> error + jsval" where
  "resolveRef rt ref doc = walk rt doc (ref_parts ref)"

section \<open>Type Synthesizer\<close>

text \<open>
  \<^verbatim>\<open>required.includes(key)\<close>, where \<^verbatim>\<open>required = schema.required || []\<close> is truthy.
  An array has \<^verbatim>\<open>Array.prototype.includes\<close> (is some element the string \<open>key\<close>), a string
  has \<^verbatim>\<open>String.prototype.includes\<close> (is \<open>key\<close> a substring); any other truthy value has no
  callable \<^verbatim>\<open>includes\<close>, and the call throws a \<^verbatim>\<open>TypeError\<close>.
\<close>

fun js_includes :: "jsval \<Rightarrow> string \<Rightarrow> error + bool" where
  "js_includes (JArr xs) key = Inr (JStr key \<in> set xs)"
| "js_includes (JStr s) key = Inr (split_at_first key s \<noteq> None)"
| "js_includes v key = Inl TypeError"

text \<open>
  \<^verbatim>\<open>
  function schemaToTS(schema: OpenAPISchema, doc: any): string {
      if (!schema) return 'any';
      if (schema.$ref) {
          const resolved = resolveRef(schema.$ref, doc);
          return schemaToTS(resolved, doc);
      }
      switch (schema.type) {
          case 'string':  return 'string';
          case 'integer':
          case 'number':  return 'number';
          case 'boolean': return 'boolean';
          case 'array':   return `Array<${schemaToTS(schema.items!, doc)}>`;
          case 'object':
              if (!schema.properties) return 'Record<string, any>';
              const required = schema.required || [];
              const props = Object.entries(schema.properties).map(([key, value]) => {
                  const isRequired = required.includes(key);
                  return `${key}${isRequired ? '' : '?'}: ${schemaToTS(value, doc)}`;
              });
              return `{${props.join('; ')}}`;
          default:        return 'any';
      }
  }
  \<close>
  The source has no bound on the recursion. The model counts the depth of calls with a
  fuel argument: \<open>schemaToTS rt n schema doc = None\<close> says that the call does not return
  within a call depth of \<open>n\<close>; a call that returns or throws does so for some \<open>n\<close> and
  for every larger one. The source's behaviour on an input is the value that is reached for
  some fuel; an input for which every fuel gives \<open>None\<close> recurses without bound (in a
  JavaScript engine, until the call stack is exhausted).

  A truthy \<^verbatim>\<open>schema.$ref\<close> that is not a string has no \<^verbatim>\<open>replace\<close> method, so the first
  line of \<^verbatim>\<open>resolveRef\<close> throws a \<^verbatim>\<open>TypeError\<close>.
\<close>

fun schemaToTS :: "runtime \<Rightarrow> nat \<Rightarrow> jsval \<Rightarrow> jsval \<Rightarrow> string result" where
  "schemaToTS rt 0 schema doc = None"
| "schemaToTS rt (Suc n) schema doc =
     (if \<not> truthy schema then returns ''any''
      else if truthy (own_prop schema ''$ref'') then
        (case own_prop schema ''$ref'' of
           JStr ref \<Rightarrow>
             (case resolveRef rt ref doc of
                Inl e \<Rightarrow> throws e
              | Inr resolved \<Rightarrow> schemaToTS rt n resolved doc)
         | _ \<Rightarrow> throws TypeError)
      else if own_prop schema ''type'' = JStr ''string'' then returns ''string''
      else if own_prop schema ''type'' = JStr ''integer'' then returns ''number''
      else if own_prop schema ''type'' = JStr ''number'' then returns ''number''
      else if own_prop schema ''type'' = JStr ''boolean'' then returns ''boolean''
      else if own_prop schema ''type'' = JStr ''array'' then
        bind_res (schemaToTS rt n (own_prop schema ''items'') doc)
          (\<lambda>t. returns (''Array<'' @ t @ ''>''))
      else if own_prop schema ''type'' = JStr ''object'' then
        (if \<not> truthy (own_prop schema ''properties'') then returns ''Record<string, any>''
         else
           bind_res
             (sequence_res
                (map (\<lambda>(key, val).
                        case js_includes (js_or (own_prop schema ''required'') (JArr [])) key of
                          Inl e \<Rightarrow> throws e
                        | Inr isRequired \<Rightarrow>
                            bind_res (schemaToTS rt n val doc)
                              (\<lambda>t. returns (key @ (if isRequired then [] else ''?'') @ '': '' @ t)))
                   (entries (own_prop schema ''properties''))))
             (\<lambda>props. returns (''{'' @ js_join ''; '' props @ ''}'')))
      else returns ''any'')"

subsection \<open>The branches of the synthesizer\<close>

text \<open>
  The branch of \<open>schemaToTS\<close> that a schema node takes, with what the branch reads from the
  node. The tests and their order are those of the source; \<open>schemaToTS_Suc\<close> below proves
  that \<open>schemaToTS\<close> is the case distinction over \<open>classify\<close>.
\<close>

datatype node_kind =
    Absent
  | Reference string
  | BadReference
  | Fixed string
  | ArrayOf jsval
  | OpenObject
  | RecordOf "(string \<times> jsval) list" jsval

definition classify :: "jsval \<Rightarrow> node_kind" where
  "classify schema =
     (if \<not> truthy schema then Absent
      else if truthy (own_prop schema ''$ref'') then
        (case own_prop schema ''$ref'' of JStr ref \<Rightarrow> Reference ref | _ \<Rightarrow> BadReference)
      else if own_prop schema ''type'' = JStr ''string'' then Fixed ''string''
      else if own_prop schema ''type'' = JStr ''integer'' then Fixed ''number''
      else if own_prop schema ''type'' = JStr ''number'' then Fixed ''number''
      else if own_prop schema ''type'' = JStr ''boolean'' then Fixed ''boolean''
      else if own_prop schema ''type'' = JStr ''array'' then ArrayOf (own_prop schema ''items'')
      else if own_prop schema ''type'' = JStr ''object'' then
        (if \<not> truthy (own_prop schema ''properties'') then OpenObject
         else RecordOf (entries (own_prop schema ''properties''))
                (js_or (own_prop schema ''required'') (JArr [])))
      else Fixed ''any'')"

text \<open>The callback of \<^verbatim>\<open>Object.entries(schema.properties).map\<close>: one member of a record type.\<close>

definition member :: "runtime \<Rightarrow> nat \<Rightarrow> jsval \<Rightarrow> jsval \<Rightarrow> string \<times> jsval \<Rightarrow> string result" where
  "member rt n required doc kv =
     (case js_includes required (fst kv) of
        Inl e \<Rightarrow> throws e
      | Inr isRequired \<Rightarrow>
          bind_res (schemaToTS rt n (snd kv) doc)
            (\<lambda>t. returns (fst kv @ (if isRequired then [] else ''?'') @ '': '' @ t)))"

text \<open>
  The schema nodes on which a call of \<open>schemaToTS\<close> calls itself: the target of a
  reference, the element schema of an array, the property schemas of an object.
\<close>

definition calls :: "runtime \<Rightarrow> jsval \<Rightarrow> jsval \<Rightarrow> jsval list" where
  "calls rt schema doc =
     (case classify schema of
        Reference ref \<Rightarrow> (case resolveRef rt ref doc of Inl e \<Rightarrow> [] | Inr resolved \<Rightarrow> [resolved])
      | ArrayOf items \<Rightarrow> [items]
      | RecordOf props required \<Rightarrow> map snd props
      | _ \<Rightarrow> [])"

text \<open>
  \<open>visit_bounded rt n schema doc\<close>: every chain of such calls that starts at \<open>schema\<close> has
  fewer than \<open>n\<close> nodes. A schema whose references form a cycle is bounded for no \<open>n\<close>.
\<close>

fun visit_bounded :: "runtime \<Rightarrow> nat \<Rightarrow> jsval \<Rightarrow> jsval \<Rightarrow> bool" where
  "visit_bounded rt 0 schema doc = False"
| "visit_bounded rt (Suc n) schema doc = list_all (\<lambda>c. visit_bounded rt n c doc) (calls rt schema doc)"

text \<open>
  \<open>never_returns schema doc\<close>: the call \<^verbatim>\<open>schemaToTS(schema, doc)\<close> neither returns nor
  throws, at whatever depth the recursion is cut and whatever the built-ins of the runtime
  are.
\<close>

definition never_returns :: "jsval \<Rightarrow> jsval \<Rightarrow> bool" where
  "never_returns schema doc = (\<forall>rt n. schemaToTS rt n schema doc = None)"

subsection \<open>Example documents\<close>

text \<open>
  A schema \<^verbatim>\<open>Node\<close> with a property \<^verbatim>\<open>next\<close> that refers to \<^verbatim>\<open>Node\<close> itself:
  \<^verbatim>\<open>
  components:
    schemas:
      Node:
        type: object
        properties:
          next:
            $ref: '#/components/schemas/Node'
  \<close>
\<close>

definition node_ref :: jsval where
  "node_ref = JObj [(''$ref'', JStr ''#/components/schemas/Node'')]"

definition node_schema :: jsval where
  "node_schema = JObj [(''type'', JStr ''object''), (''properties'', JObj [(''next'', node_ref)])]"

definition node_doc :: jsval where
  "node_doc = JObj [(''components'', JObj [(''schemas'', JObj [(''Node'', node_schema)])])]"

text \<open>
  A document with one schema, \<^verbatim>\<open>Pet\<close>, and no schema \<^verbatim>\<open>Missing\<close>:
  \<^verbatim>\<open>
  components:
    schemas:
      Pet:
        type: object
        required: [name]
        properties:
          name: {type: string}
          tags: {type: array, items: {type: string}}
  \<close>
\<close>

definition pet_schema :: jsval where
  "pet_schema =
     JObj [(''type'', JStr ''object''),
           (''required'', JArr [JStr ''name'']),
           (''properties'',
              JObj [(''name'', JObj [(''type'', JStr ''string'')]),
                    (''tags'', JObj [(''type'', JStr ''array''),
                                    (''items'', JObj [(''type'', JStr ''string'')])])])]"

definition pet_doc :: jsval where
  "pet_doc = JObj [(''components'', JObj [(''schemas'', JObj [(''Pet'', pet_schema)])])]"

definition pet_ref :: jsval where
  "pet_ref = JObj [(''$ref'', JStr ''#/components/schemas/Pet'')]"

definition missing_ref :: jsval where
  "missing_ref = JObj [(''$ref'', JStr ''#/components/schemas/Missing'')]"

text \<open>
  An object whose property names include the array indices \<^verbatim>\<open>2\<close> and \<^verbatim>\<open>1\<close>, declared
  after \<^verbatim>\<open>name\<close> and in this order:
  \<^verbatim>\<open>
  type: object
  required: [name]
  properties:
    name: {type: string}
    2: {type: number}
    1: {type: boolean}
  \<close>
\<close>

definition numbered_properties :: "(string \<times> jsval) list" where
  "numbered_properties =
     [(''name'', JObj [(''type'', JStr ''string'')]),
      (''2'', JObj [(''type'', JStr ''number'')]),
      (''1'', JObj [(''type'', JStr ''boolean'')])]"

definition numbered_schema :: jsval where
  "numbered_schema =
     JObj [(''type'', JStr ''object''),
           (''required'', JArr [JStr ''name'']),
           (''properties'', JObj numbered_properties)]"

definition numbered_types :: "jsval \<Rightarrow> string" where
  "numbered_types v =
     (if v = JObj [(''type'', JStr ''string'')] then ''string''
      else if v = JObj [(''type'', JStr ''number'')] then ''number''
      else ''boolean'')"

subsection \<open>An example runtime\<close>

text \<open>
  In every ECMAScript runtime a plain object inherits the members of
  \<^verbatim>\<open>Object.prototype\<close>, which have the names below. \<open>object_prototype_runtime\<close> is the
  table with just these members, each a built-in known by its name. It is the runtime of
  the examples, which read properties of plain objects only, and only under names that
  are own properties or that no built-in has; what arrays, strings and the built-ins
  themselves inherit is not in this table.
\<close>

definition object_prototype_names :: "string list" where
  "object_prototype_names =
     [''constructor'', ''__defineGetter__'', ''__defineSetter__'', ''hasOwnProperty'',
      ''__lookupGetter__'', ''__lookupSetter__'', ''isPrototypeOf'', ''propertyIsEnumerable'',
      ''toString'', ''valueOf'', ''__proto__'', ''toLocaleString'']"

definition object_prototype_runtime :: runtime where
  "object_prototype_runtime v k =
     (case v of
        JObj kvs \<Rightarrow>
          if k \<in> set object_prototype_names
          then Some (Inr (JBuiltin (''Object.prototype.'' @ k)))
          else None
      | _ \<Rightarrow> None)"

section \<open>Operation Compiler\<close>

subsection \<open>Operations\<close>

text \<open>
  The \<^verbatim>\<open>Parameter\<close>, \<^verbatim>\<open>RequestBody\<close> and \<^verbatim>\<open>Response\<close> interfaces of the source, and the
  members of an operation that \<^verbatim>\<open>generateFunction\<close> reads. An optional member is an
  \<open>option\<close>; an optional schema is a \<open>jsval\<close>, \<open>JUndefined\<close> when it is missing.
\<close>

datatype location = Query | Path | Header | Cookie

record parameter =
  p_name :: string
  p_in :: location
  p_required :: "bool option"
  p_schema :: jsval

text \<open>
  The interface declares \<^verbatim>\<open>content\<close> as required, but an operation is of type \<^verbatim>\<open>any\<close>
  and nothing checks it: \<open>rb_content\<close> is \<open>None\<close> for a request body without
  \<^verbatim>\<open>content\<close>, \<open>Some None\<close> for a \<^verbatim>\<open>content\<close> without an \<^verbatim>\<open>application/json\<close> entry,
  and \<open>Some (Some s)\<close> for an entry whose \<^verbatim>\<open>schema\<close> is \<open>s\<close>.
\<close>

record requestBody =
  rb_required :: "bool option"
  rb_content :: "jsval option option"

record response =
  r_description :: string
  r_content :: "jsval option option"

record operation =
  op_operationId :: "string option"
  op_summary :: "string option"
  op_description :: "string option"
  op_parameters :: "parameter list option"
  op_requestBody :: "requestBody option"
  op_responses :: "(string \<times> response) list option"

text \<open>\<^verbatim>\<open>const API_URL = '${process.env.API_URL}';\<close>\<close>

definition API_URL :: string where
  "API_URL = ''${process.env.API_URL}''"

subsection \<open>Naming\<close>

definition lower_letters :: string where
  "lower_letters = ''abcdefghijklmnopqrstuvwxyz''"

definition upper_letters :: string where
  "upper_letters = ''ABCDEFGHIJKLMNOPQRSTUVWXYZ''"

text \<open>The regular-expression class \<^verbatim>\<open>[a-z]\<close>.\<close>

definition is_lower :: "char \<Rightarrow> bool" where
  "is_lower c = (c \<in> set lower_letters)"

text \<open>The regular-expression class \<^verbatim>\<open>\w\<close>, that is \<^verbatim>\<open>[A-Za-z0-9_]\<close>.\<close>

definition is_word :: "char \<Rightarrow> bool" where
  "is_word c = (c \<in> set (lower_letters @ upper_letters @ ''0123456789_''))"

text \<open>\<^verbatim>\<open>c.toUpperCase()\<close> on one ASCII character.\<close>

definition to_upper :: "char \<Rightarrow> char" where
  "to_upper c = (case map_of (zip lower_letters upper_letters) c of Some u \<Rightarrow> u | None \<Rightarrow> c)"

text \<open>
  \<^verbatim>\<open>route.replace(/\W+/g, '_')\<close>: scanning from the left, every match of \<^verbatim>\<open>\W+\<close> (a
  non-word character and all non-word characters that follow it) is replaced by one
  underscore.
\<close>

function collapse_nonword :: "string \<Rightarrow> string" where
  "collapse_nonword [] = []"
| "collapse_nonword (c # cs) =
     (if is_word c then c # collapse_nonword cs
      else CHR ''_'' # collapse_nonword (dropWhile (\<lambda>d. \<not> is_word d) cs))"
  by pat_completeness auto
termination
  by (relation "measure length") (auto simp: length_dropWhile_le le_imp_less_Suc)

text \<open>
  \<^verbatim>\<open>name.replace(/_([a-z])/g, (_, c) => c.toUpperCase())\<close>: scanning from the left, every
  underscore that is directly followed by a letter of \<^verbatim>\<open>[a-z]\<close> is replaced, together with
  that letter, by the upper-case letter.
\<close>

fun camelCase :: "string \<Rightarrow> string" where
  "camelCase [] = []"
| "camelCase [c] = [c]"
| "camelCase (c # d # r) =
     (if c = CHR ''_'' \<and> is_lower d then to_upper d # camelCase r
      else c # camelCase (d # r))"

text \<open>\<^verbatim>\<open>a || b\<close> for an optional string \<open>a\<close>: the empty string is falsy.\<close>

definition str_or :: "string option \<Rightarrow> string \<Rightarrow> string" where
  "str_or a b = (case a of None \<Rightarrow> b | Some s \<Rightarrow> if s = [] then b else s)"

text \<open>
  \<^verbatim>\<open>
  let functionName = operation.operationId || `${method}${route.replace(/\W+/g, '_')}`;
  functionName = functionName.replace(/_([a-z])/g, (_, c) => c.toUpperCase());
  \<close>
\<close>

definition functionName :: "string \<Rightarrow> string \<Rightarrow> operation \<Rightarrow> string" where
  "functionName route method operation =
     camelCase (str_or (op_operationId operation) (method @ collapse_nonword route))"


subsection \<open>Parameters and types\<close>

text \<open>\<^verbatim>\<open>const parameters = operation.parameters || [];\<close>\<close>

definition parameters :: "operation \<Rightarrow> parameter list" where
  "parameters operation = (case op_parameters operation of None \<Rightarrow> [] | Some ps \<Rightarrow> ps)"

definition pathParams :: "operation \<Rightarrow> parameter list" where
  "pathParams operation = filter (\<lambda>p. p_in p = Path) (parameters operation)"

definition queryParams :: "operation \<Rightarrow> parameter list" where
  "queryParams operation = filter (\<lambda>p. p_in p = Query) (parameters operation)"

text \<open>
  \<^verbatim>\<open>operation.responses?.['200']?.content?.['application/json']?.schema\<close>
\<close>

definition responseSchema :: "operation \<Rightarrow> jsval" where
  "responseSchema operation =
     (case op_responses operation of
        None \<Rightarrow> JUndefined
      | Some rs \<Rightarrow>
          (case map_of rs ''200'' of
             None \<Rightarrow> JUndefined
           | Some r \<Rightarrow>
               (case r_content r of
                  None \<Rightarrow> JUndefined
                | Some None \<Rightarrow> JUndefined
                | Some (Some s) \<Rightarrow> s)))"

text \<open>
  \<^verbatim>\<open>
  const pathParamTypes = pathParams.map((p: Parameter) =>
      `${p.name}: ${schemaToTS(p.schema!, doc)}`).join('; ');
  const queryParamTypes = queryParams.map((p: Parameter) =>
      `${p.name}${p.required ? '' : '?'}: ${schemaToTS(p.schema!, doc)}`).join('; ');
  \<close>
  The fuel \<open>n\<close> is handed to every top-level call of \<open>schemaToTS\<close>.
\<close>

definition pathParamTypes :: "runtime \<Rightarrow> nat \<Rightarrow> parameter list \<Rightarrow> jsval \<Rightarrow> string result" where
  "pathParamTypes rt n ps doc =
     bind_res
       (sequence_res
          (map (\<lambda>p. bind_res (schemaToTS rt n (p_schema p) doc)
                       (\<lambda>t. returns (p_name p @ '': '' @ t))) ps))
       (\<lambda>members. returns (js_join ''; '' members))"

definition queryParamTypes :: "runtime \<Rightarrow> nat \<Rightarrow> parameter list \<Rightarrow> jsval \<Rightarrow> string result" where
  "queryParamTypes rt n ps doc =
     bind_res
       (sequence_res
          (map (\<lambda>p. bind_res (schemaToTS rt n (p_schema p) doc)
                       (\<lambda>t. returns
                          (p_name p @ (if p_required p = Some True then [] else ''?'') @ '': '' @ t)))
             ps))
       (\<lambda>members. returns (js_join ''; '' members))"

text \<open>
  \<^verbatim>\<open>
  const requestBodyType = requestBody
      ? schemaToTS(requestBody.content['application/json']?.schema!, doc)
      : 'undefined';
  const responseType = responseSchema ? schemaToTS(responseSchema, doc) : 'any';
  \<close>
\<close>

definition requestBodyType :: "runtime \<Rightarrow> nat \<Rightarrow> requestBody option \<Rightarrow> jsval \<Rightarrow> string result" where
  "requestBodyType rt n rb doc =
     (case rb of
        None \<Rightarrow> returns ''undefined''
      | Some b \<Rightarrow>
          (case rb_content b of
             None \<Rightarrow> throws TypeError
           | Some content \<Rightarrow>
               schemaToTS rt n (case content of None \<Rightarrow> JUndefined | Some s \<Rightarrow> s) doc))"

definition responseType :: "runtime \<Rightarrow> nat \<Rightarrow> operation \<Rightarrow> jsval \<Rightarrow> string result" where
  "responseType rt n operation doc =
     (if truthy (responseSchema operation) then schemaToTS rt n (responseSchema operation) doc
      else returns ''any'')"

subsection \<open>Signature\<close>

text \<open>
  \<^verbatim>\<open>
  let paramSignature = '';
  if (pathParams.length) {
      paramSignature += `{ ${pathParams.map(p => p.name).join(', ')} }: { ${pathParamTypes} }`;
  }
  if (queryParams.length) {
      paramSignature += paramSignature ? `, query: { ${queryParamTypes} }`
                                       : `query: { ${queryParamTypes} }`;
  }
  if (requestBody) {
      paramSignature += paramSignature ? `, body: ${requestBodyType}` : `body: ${requestBodyType}`;
  }
  paramSignature = paramSignature || '_?: void';
  \<close>
  The arguments are the path parameters, the query parameters, the request body and the
  three type texts computed before.
\<close>

definition paramSignature ::
  "parameter list \<Rightarrow> parameter list \<Rightarrow> requestBody option \<Rightarrow> string \<Rightarrow> string \<Rightarrow> string \<Rightarrow> string"
where
  "paramSignature pathPs queryPs rb pathTypes queryTypes bodyType =
     (let s0 = [];
          s1 = (if length pathPs \<noteq> 0
                then s0 @ ''{ '' @ js_join '', '' (map p_name pathPs) @ '' }: { '' @ pathTypes @ '' }''
                else s0);
          s2 = (if length queryPs \<noteq> 0
                then s1 @ (if s1 \<noteq> [] then '', query: { '' @ queryTypes @ '' }''
                          else ''query: { '' @ queryTypes @ '' }'')
                else s1);
          s3 = (if rb \<noteq> None
                then s2 @ (if s2 \<noteq> [] then '', body: '' @ bodyType else ''body: '' @ bodyType)
                else s2)
      in if s3 \<noteq> [] then s3 else ''_?: void'')"

subsection \<open>URL and body of the emitted function\<close>

text \<open>
  \<^verbatim>\<open>
  let url = `${API_URL}${route}`;
  pathParams.forEach(p => {
      url = url.replace(`{${p.name}}`, `\${${p.name}}`);
  });
  \<close>
\<close>

definition url :: "string \<Rightarrow> parameter list \<Rightarrow> string" where
  "url route pathPs =
     fold (\<lambda>p u. js_replace (''{'' @ p_name p @ ''}'') (''${'' @ p_name p @ ''}'') u)
       pathPs (API_URL @ route)"

definition queryHandling :: "parameter list \<Rightarrow> string" where
  \<open>queryHandling queryPs =
     (if length queryPs \<noteq> 0
      then ''const queryStr = new URLSearchParams(Object.entries(query).filter(([_, v]) => v !== undefined).map(([k, v]) => [k, String(v)])).toString(); url += queryStr ? `?${queryStr}` : "";''
      else [])\<close>

definition bodyHandling :: "requestBody option \<Rightarrow> string" where
  \<open>bodyHandling rb =
     (if rb \<noteq> None
      then ''const options: RequestInit = { headers: { "Content-Type": "application/json" }, body: JSON.stringify(body) };''
      else ''const options: RequestInit = {};'')\<close>

text \<open>Line 160 of the source: the header of the emitted function.\<close>

definition header_line :: "string \<Rightarrow> string \<Rightarrow> string \<Rightarrow> string" where
  "header_line fname signature rtype =
     ''export async function '' @ fname @ ''('' @ signature @ ''): Promise<'' @ rtype @ '' | null> {''"

text \<open>Lines 161 to 177 of the source: the body of the emitted function.\<close>

definition body_lines :: "string \<Rightarrow> string \<Rightarrow> string \<Rightarrow> string \<Rightarrow> string list" where
  "body_lines method u qh bh =
     [''  try {'',
      ''    let url = `'' @ u @ ''`;'',
      ''    '' @ qh,
      ''    '' @ bh,
      ''    const res = await fetch(url, options);'',
      ''    '',
      ''    if (!res.ok) {'',
      ''      console.error(`API error: '' @ map to_upper method @ '' ${url} ${res.status}`);'',
      ''      return null;'',
      ''    }'',
      ''    '',
      ''    return await res.json();'',
      ''  } catch (error) {'',
      ''    console.error(error);'',
      ''    return null;'',
      ''  }'',
      ''}'']"

text \<open>
  Lines 154 to 177 of the source: the template literal that \<^verbatim>\<open>generateFunction\<close> returns,
  as a function of the local variables \<^verbatim>\<open>paramSignature\<close> and \<^verbatim>\<open>responseType\<close>.
\<close>

definition function_text :: "string \<Rightarrow> string \<Rightarrow> operation \<Rightarrow> string \<Rightarrow> string \<Rightarrow> string" where
  "function_text route method operation signature rtype =
     js_join [CHR 0x0A]
       ([CHR 0x27 # ''use server'' @ [CHR 0x27] @ '';'',
         [],
         ''/**'',
         '' * '' @ str_or (op_summary operation) [],
         '' * '' @ str_or (op_description operation) [],
         '' */'',
         header_line (functionName route method operation) signature rtype]
        @ body_lines method (url route (pathParams operation))
            (queryHandling (queryParams operation))
            (bodyHandling (op_requestBody operation)))"

text \<open>
  \<^verbatim>\<open>generateFunction\<close>: the four type texts are computed in the order of the source (a
  synthesis that throws or does not return ends the call there), then the text is put
  together.
\<close>

definition generateFunction ::
  "runtime \<Rightarrow> nat \<Rightarrow> string \<Rightarrow> string \<Rightarrow> operation \<Rightarrow> jsval \<Rightarrow> string result"
where
  "generateFunction rt n route method operation doc =
     bind_res (pathParamTypes rt n (pathParams operation) doc) (\<lambda>pathTypes.
     bind_res (queryParamTypes rt n (queryParams operation) doc) (\<lambda>queryTypes.
     bind_res (requestBodyType rt n (op_requestBody operation) doc) (\<lambda>bodyType.
     bind_res (responseType rt n operation doc) (\<lambda>rtype.
       returns
         (function_text route method operation
            (paramSignature (pathParams operation) (queryParams operation)
               (op_requestBody operation) pathTypes queryTypes bodyType)
            rtype)))))"

section \<open>The emitted function at run time\<close>

text \<open>
  The text that \<open>generateFunction\<close> returns is a TypeScript function. To say how that
  function behaves, its parameter list and its body are given once more as syntax trees,
  with a printer and an interpreter: the printer gives back the emitted lines
  (\<open>emitted_text_is_printed\<close> below), the interpreter runs the tree.
\<close>

subsection \<open>Syntax and printer\<close>



text \<open>
  What a one-line statement does. The expressions of the emitted text are not
  interpreted: whether evaluating them yields a value or throws is decided by the
  environment of the call.
\<close>

datatype action =
    EvalUrl
  | BuildQuery
  | BuildOptions
  | AwaitFetch
  | LogApiError string
  | LogError
  | NoAction

datatype returned = Null | AwaitJson

text \<open>
  A statement: one line of text with its action, \<^verbatim>\<open>return e;\<close>,
  \<^verbatim>\<open>if (!res.ok) { ... }\<close>, or \<^verbatim>\<open>try { ... } catch (error) { ... }\<close>.
\<close>

datatype stmt =
    Simple string action
  | Return string returned
  | IfNotOk "stmt list"
  | TryCatch "stmt list" "stmt list"

fun print_stmt :: "string \<Rightarrow> stmt \<Rightarrow> string list"
  and print_block :: "string \<Rightarrow> stmt list \<Rightarrow> string list" where
  "print_stmt ind (Simple line a) = [ind @ line]"
| "print_stmt ind (Return e r) = [ind @ ''return '' @ e @ '';'']"
| "print_stmt ind (IfNotOk body) =
     [ind @ ''if (!res.ok) {''] @ print_block (ind @ ''  '') body @ [ind @ ''}'']"
| "print_stmt ind (TryCatch body handler) =
     [ind @ ''try {''] @ print_block (ind @ ''  '') body
     @ [ind @ ''} catch (error) {''] @ print_block (ind @ ''  '') handler @ [ind @ ''}'']"
| "print_block ind [] = []"
| "print_block ind (s # ss) = print_stmt ind s @ print_block ind ss"





subsection \<open>Interpreter\<close>

text \<open>
  The environment of one call decides the outcome of every expression that the emitted
  text leaves to the runtime: the template literal of the URL, the statement that appends
  the query string (which reads the argument \<^verbatim>\<open>query\<close>), the statement that builds the
  options (\<^verbatim>\<open>JSON.stringify(body)\<close>), \<^verbatim>\<open>fetch\<close>, and \<^verbatim>\<open>res.json()\<close>. Each yields a value
  or throws. \<^verbatim>\<open>console.error\<close> is taken not to throw.
\<close>

datatype 'a completion = Normal 'a | Abrupt string

record fetch_response =
  res_ok :: bool
  res_status :: int
  res_json :: "jsval completion"

record environment =
  env_url :: "string completion"
  env_query :: "string completion"
  env_options :: "unit completion"
  env_fetch :: "string \<Rightarrow> fetch_response completion"

datatype log_entry = ApiError string string int | Exception string

text \<open>
  The state of a call: the variables \<^verbatim>\<open>url\<close> and \<^verbatim>\<open>res\<close>, the caught \<^verbatim>\<open>error\<close>, and
  what has been written with \<^verbatim>\<open>console.error\<close>.
\<close>

record machine =
  m_url :: string
  m_res :: "fetch_response option"
  m_error :: string
  m_log :: "log_entry list"

text \<open>
  How a statement ends: control goes on, the function returns a value, or an exception
  is on its way out. Reading \<^verbatim>\<open>res\<close> before it is initialized throws.
\<close>

datatype outcome = Continue | Returns jsval | Throws string

fun exec_action :: "environment \<Rightarrow> machine \<Rightarrow> action \<Rightarrow> machine \<times> outcome" where
  "exec_action env m EvalUrl =
     (case env_url env of
        Normal u \<Rightarrow> (m\<lparr>m_url := u\<rparr>, Continue)
      | Abrupt e \<Rightarrow> (m, Throws e))"
| "exec_action env m BuildQuery =
     (case env_query env of
        Normal q \<Rightarrow> (m\<lparr>m_url := m_url m @ q\<rparr>, Continue)
      | Abrupt e \<Rightarrow> (m, Throws e))"
| "exec_action env m BuildOptions =
     (case env_options env of
        Normal _ \<Rightarrow> (m, Continue)
      | Abrupt e \<Rightarrow> (m, Throws e))"
| "exec_action env m AwaitFetch =
     (case env_fetch env (m_url m) of
        Normal res \<Rightarrow> (m\<lparr>m_res := Some res\<rparr>, Continue)
      | Abrupt e \<Rightarrow> (m, Throws e))"
| "exec_action env m (LogApiError method) =
     (case m_res m of
        Some res \<Rightarrow>
          (m\<lparr>m_log := m_log m @ [ApiError method (m_url m) (res_status res)]\<rparr>, Continue)
      | None \<Rightarrow> (m, Throws ''ReferenceError''))"
| "exec_action env m LogError = (m\<lparr>m_log := m_log m @ [Exception (m_error m)]\<rparr>, Continue)"
| "exec_action env m NoAction = (m, Continue)"

fun exec :: "environment \<Rightarrow> machine \<Rightarrow> stmt \<Rightarrow> machine \<times> outcome"
  and exec_block :: "environment \<Rightarrow> machine \<Rightarrow> stmt list \<Rightarrow> machine \<times> outcome" where
  "exec env m (Simple line a) = exec_action env m a"
| "exec env m (Return e Null) = (m, Returns JNull)"
| "exec env m (Return e AwaitJson) =
     (case m_res m of
        Some res \<Rightarrow>
          (case res_json res of
             Normal v \<Rightarrow> (m, Returns v)
           | Abrupt x \<Rightarrow> (m, Throws x))
      | None \<Rightarrow> (m, Throws ''ReferenceError''))"
| "exec env m (IfNotOk body) =
     (case m_res m of
        Some res \<Rightarrow> if \<not> res_ok res then exec_block env m body else (m, Continue)
      | None \<Rightarrow> (m, Throws ''ReferenceError''))"
| "exec env m (TryCatch body handler) =
     (case exec_block env m body of
        (m', Throws x) \<Rightarrow> exec_block env (m'\<lparr>m_error := x\<rparr>) handler
      | (m', other) \<Rightarrow> (m', other))"
| "exec_block env m [] = (m, Continue)"
| "exec_block env m (s # ss) =
     (case exec env m s of
        (m', Continue) \<Rightarrow> exec_block env m' ss
      | (m', other) \<Rightarrow> (m', other))"




section \<open>The rules as the specification words them\<close>

text \<open>
  Signature construction: the parts that apply, comma-joined in the fixed order path
  group, \<^verbatim>\<open>query\<close>, \<^verbatim>\<open>body\<close>; a single optional placeholder parameter if none applies.
\<close>

definition spec_signature :: "string option list \<Rightarrow> string" where
  "spec_signature parts =
     (let present = concat (map (\<lambda>part. case part of None \<Rightarrow> [] | Some s \<Rightarrow> [s]) parts)
      in if present = [] then ''_?: void'' else js_join '', '' present)"

text \<open>
  A destructured group of the path-parameter names, typed per their synthesized types;
  present if path parameters exist.
\<close>

definition spec_path_group :: "parameter list \<Rightarrow> (parameter \<Rightarrow> string) \<Rightarrow> string option" where
  "spec_path_group ps ty =
     (if ps = [] then None
      else Some (''{ '' @ js_join '', '' (map p_name ps) @ '' }: { ''
                 @ js_join ''; '' (map (\<lambda>p. p_name p @ '': '' @ ty p) ps) @ '' }''))"

text \<open>
  A \<^verbatim>\<open>query\<close> parameter typed as a record of the query-parameter names, each optional
  unless required; present if query parameters exist.
\<close>

definition spec_query_param :: "parameter list \<Rightarrow> (parameter \<Rightarrow> string) \<Rightarrow> string option" where
  "spec_query_param ps ty =
     (if ps = [] then None
      else Some (''query: { ''
                 @ js_join ''; ''
                     (map (\<lambda>p. p_name p @ (if p_required p = Some True then [] else ''?'')
                                 @ '': '' @ ty p) ps)
                 @ '' }''))"

text \<open>A \<^verbatim>\<open>body\<close> parameter typed per the request-body schema; present if a body is declared.\<close>

definition spec_body_param :: "requestBody option \<Rightarrow> string \<Rightarrow> string option" where
  "spec_body_param rb bodyType = (case rb of None \<Rightarrow> None | Some b \<Rightarrow> Some (''body: '' @ bodyType))"




text \<open>
  Object mapping: for each declared property in insertion order, the name, the optional
  marker if the name is not in the required set, a colon and the synthesized type of its
  value; the members joined into a record type.
\<close>

definition spec_record_type :: "(string \<times> jsval) list \<Rightarrow> jsval list \<Rightarrow> (jsval \<Rightarrow> string) \<Rightarrow> string" where
  "spec_record_type props required ty =
     ''{''
     @ js_join ''; ''
         (map (\<lambda>(key, val). key @ (if JStr key \<in> set required then [] else ''?'') @ '': '' @ ty val)
            props)
     @ ''}''"


subsection \<open>Example operations\<close>

text \<open>\<^verbatim>\<open>GET /Users\<close> without an \<^verbatim>\<open>operationId\<close>, parameters, body or responses.\<close>

definition plain_operation :: operation where
  "plain_operation =
     \<lparr>op_operationId = None, op_summary = None, op_description = None,
      op_parameters = None, op_requestBody = None, op_responses = None\<rparr>"

definition id_param :: parameter where
  "id_param = \<lparr>p_name = ''id'', p_in = Path, p_required = Some True,
               p_schema = JObj [(''type'', JStr ''integer'')]\<rparr>"

definition name_param :: parameter where
  "name_param = \<lparr>p_name = ''name'', p_in = Query, p_required = Some True,
                 p_schema = JObj [(''type'', JStr ''string'')]\<rparr>"

definition limit_param :: parameter where
  "limit_param = \<lparr>p_name = ''limit'', p_in = Query, p_required = None,
                  p_schema = JObj [(''type'', JStr ''integer'')]\<rparr>"

definition pet_body :: requestBody where
  "pet_body = \<lparr>rb_required = Some True, rb_content = Some (Some pet_ref)\<rparr>"

text \<open>
  \<^verbatim>\<open>PUT /pets/{id}\<close> with a path parameter, two query parameters, a JSON body and a
  \<^verbatim>\<open>200\<close> response, both of schema \<^verbatim>\<open>Pet\<close>.
\<close>

definition update_pet :: operation where
  "update_pet =
     \<lparr>op_operationId = Some ''update_pet'', op_summary = Some ''Update a pet'',
      op_description = None,
      op_parameters = Some [id_param, name_param, limit_param],
      op_requestBody = Some pet_body,
      op_responses = Some [(''200'', \<lparr>r_description = ''ok'', r_content = Some (Some pet_ref)\<rparr>)]\<rparr>"




text \<open>A declared request body without \<^verbatim>\<open>content\<close>, and an operation that has it.\<close>

definition empty_body :: requestBody where
  "empty_body = \<lparr>rb_required = None, rb_content = None\<rparr>"

definition post_note :: operation where
  "post_note = plain_operation\<lparr>op_requestBody := Some empty_body\<rparr>"






section \<open>Properties of values\<close>

lemma own_prop_simps [simp]:
  "own_prop (JObj kvs) k = (case map_of kvs k of Some v \<Rightarrow> v | None \<Rightarrow> JUndefined)"
  "own_prop (JArr xs) k =
     (if k = ''length'' then JNum (int (length xs))
      else case map_of (entries (JArr xs)) k of Some v \<Rightarrow> v | None \<Rightarrow> JUndefined)"
  "own_prop (JStr s) k =
     (if k = ''length'' then JNum (int (length s))
      else case map_of (entries (JStr s)) k of Some v \<Rightarrow> v | None \<Rightarrow> JUndefined)"
  "own_prop JUndefined k = JUndefined"
  "own_prop JNull k = JUndefined"
  "own_prop (JBool b) k = JUndefined"
  "own_prop (JNum i) k = JUndefined"
  "own_prop (JBuiltin f) k = JUndefined"
  by (simp_all add: own_prop_def)

lemma js_get_own:
  "\<not> nullish v \<Longrightarrow> own_lookup v k = Some x \<Longrightarrow> js_get rt v k = Inr x"
  by (simp add: js_get_def)

lemma js_get_nullish: "nullish v \<Longrightarrow> js_get rt v k = Inl TypeError"
  by (simp add: js_get_def)

lemma js_get_absent:
  "\<not> nullish v \<Longrightarrow> own_lookup v k = None \<Longrightarrow> rt v k = None \<Longrightarrow> js_get rt v k = Inr JUndefined"
  by (simp add: js_get_def)

lemma own_property_order_plain:
  assumes "list_all (\<lambda>kv. \<not> is_array_index (fst kv)) kvs"
  shows "own_property_order kvs = kvs"
proof -
  have "filter (\<lambda>kv. is_array_index (fst kv)) kvs = []"
    using assms by (simp add: filter_empty_conv list_all_iff)
  moreover have "filter (\<lambda>kv. \<not> is_array_index (fst kv)) kvs = kvs"
    using assms by (simp add: filter_id_conv list_all_iff)
  ultimately show ?thesis by (simp add: own_property_order_def)
qed

lemma mset_own_property_order: "mset (own_property_order kvs) = mset kvs"
  by (simp add: own_property_order_def)

lemma own_property_order_others:
  "filter (\<lambda>kv. \<not> is_array_index (fst kv)) (own_property_order kvs)
     = filter (\<lambda>kv. \<not> is_array_index (fst kv)) kvs"
proof -
  have "filter (\<lambda>kv. \<not> is_array_index (fst kv))
          (sort_key (\<lambda>kv. nat_of_string (fst kv)) (filter (\<lambda>kv. is_array_index (fst kv)) kvs)) = []"
    by (simp add: filter_empty_conv)
  then show ?thesis by (simp add: own_property_order_def)
qed

lemma own_property_order_indices:
  "filter (\<lambda>kv. is_array_index (fst kv)) (own_property_order kvs)
     = sort_key (\<lambda>kv. nat_of_string (fst kv)) (filter (\<lambda>kv. is_array_index (fst kv)) kvs)"
proof -
  have "filter (\<lambda>kv. is_array_index (fst kv))
          (sort_key (\<lambda>kv. nat_of_string (fst kv)) (filter (\<lambda>kv. is_array_index (fst kv)) kvs))
        = sort_key (\<lambda>kv. nat_of_string (fst kv)) (filter (\<lambda>kv. is_array_index (fst kv)) kvs)"
    by (simp add: filter_id_conv)
  then show ?thesis by (simp add: own_property_order_def)
qed

lemma array_index_examples:
  "\<not> is_array_index ''next''" "\<not> is_array_index ''name''" "\<not> is_array_index ''tags''"
  "is_array_index ''1''" "is_array_index ''2''"
  "nat_of_string ''1'' = 1" "nat_of_string ''2'' = 2"
  by (simp_all add: is_array_index_def nat_of_string_def digit_value_def digit_char_def)


lemma own_property_order_examples:
  "own_property_order [(''next'', a)] = [(''next'', a)]"
  "own_property_order [(''name'', a), (''tags'', b)] = [(''name'', a), (''tags'', b)]"
  "own_property_order [(''name'', a), (''2'', b), (''1'', c)] = [(''1'', c), (''2'', b), (''name'', a)]"
  by (simp_all add: own_property_order_def array_index_examples)

section \<open>Properties of the result type\<close>

lemma bind_res_simps [simp]:
  "bind_res None f = None"
  "bind_res (returns x) f = f x"
  "bind_res (throws e) f = throws e"
  by (simp_all add: bind_res_def returns_def throws_def)

lemma result_distinct [simp]:
  "returns x \<noteq> None" "throws e \<noteq> None" "returns x \<noteq> throws e" "throws e \<noteq> returns x"
  "None \<noteq> returns x" "None \<noteq> throws e"
  "(returns x = returns y) = (x = y)"
  by (simp_all add: returns_def throws_def)

lemma result_cases:
  obtains (Diverges) "m = None" | (Throws) e where "m = throws e" | (Returns) x where "m = returns x"
proof (cases m)
  case None
  then show ?thesis by (rule Diverges)
next
  case (Some y)
  then show ?thesis
    by (cases y) (auto simp: returns_def throws_def intro: Throws Returns)
qed

lemma bind_res_mono:
  assumes "bind_res m f = Some r"
    and "\<And>y. m = Some y \<Longrightarrow> m' = Some y"
    and "\<And>x. f x = Some r \<Longrightarrow> f' x = Some r"
  shows "bind_res m' f' = Some r"
  using assms by (cases m) (auto simp: bind_res_def split: sum.splits)

lemma sequence_res_mono:
  assumes "sequence_res (map f xs) = Some r"
    and "\<And>x y. x \<in> set xs \<Longrightarrow> f x = Some y \<Longrightarrow> g x = Some y"
  shows "sequence_res (map g xs) = Some r"
  using assms
proof (induction xs arbitrary: r)
  case Nil
  then show ?case by simp
next
  case (Cons a xs)
  have step: "f a = Some y \<Longrightarrow> g a = Some y" for y
    using Cons.prems(2) by simp
  have rest: "sequence_res (map f xs) = Some z \<Longrightarrow> sequence_res (map g xs) = Some z" for z
    using Cons.IH Cons.prems(2) by simp
  from Cons.prems(1) have "bind_res (f a) (\<lambda>x. bind_res (sequence_res (map f xs)) (\<lambda>ys. returns (x # ys))) = Some r"
    by simp
  then have "bind_res (g a) (\<lambda>x. bind_res (sequence_res (map g xs)) (\<lambda>ys. returns (x # ys))) = Some r"
  proof (rule bind_res_mono)
    fix x
    assume "bind_res (sequence_res (map f xs)) (\<lambda>ys. returns (x # ys)) = Some r"
    then show "bind_res (sequence_res (map g xs)) (\<lambda>ys. returns (x # ys)) = Some r"
      by (rule bind_res_mono) (auto dest: rest)
  qed (auto dest: step)
  then show ?case by simp
qed

lemma sequence_res_returns:
  assumes "\<And>x. x \<in> set xs \<Longrightarrow> f x = returns (g x)"
  shows "sequence_res (map f xs) = returns (map g xs)"
  using assms by (induction xs) simp_all

lemma sequence_res_terminates:
  assumes "\<And>x. x \<in> set xs \<Longrightarrow> \<exists>r. f x = Some r"
  shows "\<exists>r. sequence_res (map f xs) = Some r"
  using assms
proof (induction xs)
  case Nil
  then show ?case by (simp add: returns_def)
next
  case (Cons a xs)
  then obtain r where r: "sequence_res (map f xs) = Some r" by auto
  from Cons.prems obtain y where y: "f a = Some y" by auto
  show ?case
    by (cases y; cases r) (simp_all add: y r bind_res_def returns_def)
qed

section \<open>The synthesizer, branch by branch\<close>

lemma member_eq:
  "(\<lambda>(key, val).
       case js_includes required key of
         Inl e \<Rightarrow> throws e
       | Inr isRequired \<Rightarrow>
           bind_res (schemaToTS rt n val doc)
             (\<lambda>t. returns (key @ (if isRequired then [] else ''?'') @ '': '' @ t)))
   = member rt n required doc"
  by (rule ext) (simp add: member_def split_def)

lemma schemaToTS_Suc:
  "schemaToTS rt (Suc n) schema doc =
     (case classify schema of
        Absent \<Rightarrow> returns ''any''
      | Reference ref \<Rightarrow>
          (case resolveRef rt ref doc of
             Inl e \<Rightarrow> throws e
           | Inr resolved \<Rightarrow> schemaToTS rt n resolved doc)
      | BadReference \<Rightarrow> throws TypeError
      | Fixed t \<Rightarrow> returns t
      | ArrayOf items \<Rightarrow>
          bind_res (schemaToTS rt n items doc) (\<lambda>t. returns (''Array<'' @ t @ ''>''))
      | OpenObject \<Rightarrow> returns ''Record<string, any>''
      | RecordOf props required \<Rightarrow>
          bind_res (sequence_res (map (member rt n required doc) props))
            (\<lambda>members. returns (''{'' @ js_join ''; '' members @ ''}'')))"
  unfolding schemaToTS.simps member_eq classify_def
  by (simp split: jsval.split)

declare schemaToTS.simps(2) [simp del]

lemma member_mono:
  assumes "\<And>v r. schemaToTS rt n v doc = Some r \<Longrightarrow> schemaToTS rt n' v doc = Some r"
    and "member rt n required doc kv = Some y"
  shows "member rt n' required doc kv = Some y"
  using assms(2) unfolding member_def
  by (auto split: sum.splits elim!: bind_res_mono dest: assms(1))

lemma schemaToTS_fuel_Suc:
  "schemaToTS rt n schema doc = Some r \<Longrightarrow> schemaToTS rt (Suc n) schema doc = Some r"
proof (induction n arbitrary: schema r)
  case 0
  then show ?case by simp
next
  case (Suc n)
  note IH = Suc.IH
  show ?case
  proof (cases "classify schema")
    case (Reference ref)
    with Suc.prems show ?thesis
      by (subst schemaToTS_Suc) (auto simp: schemaToTS_Suc [where n = n] split: sum.splits dest: IH)
  next
    case (ArrayOf items)
    with Suc.prems show ?thesis
      by (subst schemaToTS_Suc) (auto simp: schemaToTS_Suc [where n = n] elim!: bind_res_mono dest: IH)
  next
    case (RecordOf props required)
    have "sequence_res (map (member rt (Suc n) required doc) props) = Some z"
      if "sequence_res (map (member rt n required doc) props) = Some z" for z
      using that by (rule sequence_res_mono) (auto elim: member_mono [rotated] dest: IH)
    with RecordOf Suc.prems show ?thesis
      by (subst schemaToTS_Suc) (auto simp: schemaToTS_Suc [where n = n] elim!: bind_res_mono)
  qed (use Suc.prems in \<open>simp_all add: schemaToTS_Suc\<close>)
qed

lemma schemaToTS_fuel_mono:
  "schemaToTS rt n schema doc = Some r \<Longrightarrow> schemaToTS rt (n + k) schema doc = Some r"
  by (induction k) (auto dest: schemaToTS_fuel_Suc)


section \<open>Absent schemas\<close>

lemma pathParamTypes_returns:
  assumes "\<And>p. p \<in> set ps \<Longrightarrow> schemaToTS rt n (p_schema p) doc = returns (ty p)"
  shows "pathParamTypes rt n ps doc = returns (js_join ''; '' (map (\<lambda>p. p_name p @ '': '' @ ty p) ps))"
proof -
  have "sequence_res (map (\<lambda>p. bind_res (schemaToTS rt n (p_schema p) doc)
                                  (\<lambda>t. returns (p_name p @ '': '' @ t))) ps)
        = returns (map (\<lambda>p. p_name p @ '': '' @ ty p) ps)"
    by (rule sequence_res_returns) (simp add: assms)
  then show ?thesis by (simp add: pathParamTypes_def)
qed

lemma queryParamTypes_returns:
  assumes "\<And>p. p \<in> set ps \<Longrightarrow> schemaToTS rt n (p_schema p) doc = returns (ty p)"
  shows "queryParamTypes rt n ps doc =
           returns (js_join ''; ''
             (map (\<lambda>p. p_name p @ (if p_required p = Some True then [] else ''?'') @ '': '' @ ty p) ps))"
proof -
  have "sequence_res (map (\<lambda>p. bind_res (schemaToTS rt n (p_schema p) doc)
            (\<lambda>t. returns (p_name p @ (if p_required p = Some True then [] else ''?'') @ '': '' @ t))) ps)
        = returns (map (\<lambda>p. p_name p @ (if p_required p = Some True then [] else ''?'') @ '': '' @ ty p) ps)"
    by (rule sequence_res_returns) (simp add: assms)
  then show ?thesis by (simp add: queryParamTypes_def)
qed

lemma schemaToTS_falsy: "\<not> truthy schema \<Longrightarrow> schemaToTS rt (Suc n) schema doc = returns ''any''"
  by (simp add: schemaToTS_Suc classify_def)

text \<open>
  C9, as stated, fails. A declared request body without \<^verbatim>\<open>content\<close> has no JSON schema,
  and it is not typed \<^verbatim>\<open>any\<close>: \<^verbatim>\<open>requestBody.content['application/json']\<close> reads a
  property of \<^verbatim>\<open>undefined\<close>, and \<open>generateFunction\<close> throws a \<^verbatim>\<open>TypeError\<close>.
\<close>

theorem requestBodyType_without_content_throws:
  "requestBodyType object_prototype_runtime (Suc 0) (Some empty_body) JNull = throws TypeError
   \<and> generateFunction object_prototype_runtime (Suc 0) ''/notes'' ''post'' post_note JNull
       = throws TypeError"
  by (simp add: requestBodyType_def empty_body_def generateFunction_def post_note_def
      plain_operation_def pathParamTypes_def queryParamTypes_def pathParams_def queryParams_def
      parameters_def)

text \<open>
  C9, amended. Synthesis is total over an absent schema. For an \<^verbatim>\<open>undefined\<close> schema
  node \<open>schemaToTS\<close> returns \<^verbatim>\<open>any\<close> at once. So an array node without \<^verbatim>\<open>items\<close>
  synthesizes to \<^verbatim>\<open>Array<any>\<close>, parameters without a schema are typed \<^verbatim>\<open>any\<close> (path and
  query parameters alike), and a request body whose \<^verbatim>\<open>content\<close> has no
  \<^verbatim>\<open>application/json\<close> entry, or an entry without a schema, is typed \<^verbatim>\<open>any\<close>. For a
  request body without \<^verbatim>\<open>content\<close> the type computation throws a \<^verbatim>\<open>TypeError\<close>.
\<close>

theorem schemaToTS_absent_schema_any:
  "schemaToTS rt (Suc n) JUndefined doc = returns ''any''
   \<and> (truthy node \<and> \<not> truthy (own_prop node ''$ref'') \<and> own_prop node ''type'' = JStr ''array''
        \<and> own_prop node ''items'' = JUndefined
      \<longrightarrow> schemaToTS rt (Suc (Suc n)) node doc = returns ''Array<any>'')
   \<and> ((\<forall>p \<in> set ps. p_schema p = JUndefined)
      \<longrightarrow> pathParamTypes rt (Suc n) ps doc
            = returns (js_join ''; '' (map (\<lambda>p. p_name p @ '': any'') ps))
        \<and> queryParamTypes rt (Suc n) ps doc
            = returns (js_join ''; ''
                (map (\<lambda>p. p_name p @ (if p_required p = Some True then [] else ''?'') @ '': any'') ps)))
   \<and> (rb_content b = Some None \<or> rb_content b = Some (Some JUndefined)
      \<longrightarrow> requestBodyType rt (Suc n) (Some b) doc = returns ''any'')
   \<and> (rb_content b = None \<longrightarrow> requestBodyType rt m (Some b) doc = throws TypeError)"
proof (intro conjI impI)
  show "schemaToTS rt (Suc n) JUndefined doc = returns ''any''"
    by (simp add: schemaToTS_falsy)
next
  assume "truthy node \<and> \<not> truthy (own_prop node ''$ref'') \<and> own_prop node ''type'' = JStr ''array''
            \<and> own_prop node ''items'' = JUndefined"
  then have "classify node = ArrayOf JUndefined"
    by (simp add: classify_def)
  then show "schemaToTS rt (Suc (Suc n)) node doc = returns ''Array<any>''"
    by (simp add: schemaToTS_Suc [where n = "Suc n"] schemaToTS_falsy)
next
  assume a: "\<forall>p \<in> set ps. p_schema p = JUndefined"
  then have "\<And>p. p \<in> set ps \<Longrightarrow> schemaToTS rt (Suc n) (p_schema p) doc = returns ''any''"
    by (simp add: schemaToTS_falsy)
  then show "pathParamTypes rt (Suc n) ps doc
               = returns (js_join ''; '' (map (\<lambda>p. p_name p @ '': any'') ps))"
    using pathParamTypes_returns [where ps = ps and n = "Suc n" and ty = "\<lambda>p. ''any''"] by simp
next
  assume a: "\<forall>p \<in> set ps. p_schema p = JUndefined"
  then have "\<And>p. p \<in> set ps \<Longrightarrow> schemaToTS rt (Suc n) (p_schema p) doc = returns ''any''"
    by (simp add: schemaToTS_falsy)
  then show "queryParamTypes rt (Suc n) ps doc
            = returns (js_join ''; ''
                (map (\<lambda>p. p_name p @ (if p_required p = Some True then [] else ''?'') @ '': any'') ps))"
    using queryParamTypes_returns [where ps = ps and n = "Suc n" and ty = "\<lambda>p. ''any''"] by simp
next
  assume "rb_content b = Some None \<or> rb_content b = Some (Some JUndefined)"
  then show "requestBodyType rt (Suc n) (Some b) doc = returns ''any''"
    by (auto simp: requestBodyType_def schemaToTS_falsy)
next
  assume "rb_content b = None"
  then show "requestBodyType rt m (Some b) doc = throws TypeError"
    by (simp add: requestBodyType_def)
qed

theorem schemaToTS_absent_schema_any_witness:
  "schemaToTS object_prototype_runtime (Suc (Suc 0)) (JObj [(''type'', JStr ''array'')]) JNull
     = returns ''Array<any>''
   \<and> pathParamTypes object_prototype_runtime (Suc 0)
        [\<lparr>p_name = ''id'', p_in = Path, p_required = Some True, p_schema = JUndefined\<rparr>] JNull
       = returns ''id: any''
   \<and> queryParamTypes object_prototype_runtime (Suc 0)
        [\<lparr>p_name = ''id'', p_in = Path, p_required = Some True, p_schema = JUndefined\<rparr>] JNull
       = returns ''id: any''
   \<and> requestBodyType object_prototype_runtime (Suc 0)
        (Some \<lparr>rb_required = None, rb_content = Some None\<rparr>) JNull
       = returns ''any''
   \<and> requestBodyType object_prototype_runtime (Suc 0) (Some empty_body) JNull = throws TypeError"
proof -
  note a = schemaToTS_absent_schema_any
      [where rt = object_prototype_runtime and n = 0 and doc = JNull
         and node = "JObj [(''type'', JStr ''array'')]"
         and ps = "[\<lparr>p_name = ''id'', p_in = Path, p_required = Some True, p_schema = JUndefined\<rparr>]"
         and b = "\<lparr>rb_required = None, rb_content = Some None\<rparr>" and m = 0]
  note b = schemaToTS_absent_schema_any
      [where rt = object_prototype_runtime and n = 0 and doc = JNull and node = JNull
         and ps = "[]" and b = empty_body and m = "Suc 0"]
  have "requestBodyType object_prototype_runtime (Suc 0) (Some empty_body) JNull = throws TypeError"
    using b by (simp add: empty_body_def)
  with a show ?thesis by simp
qed

section \<open>References\<close>

lemma schemaToTS_reference:
  assumes "truthy schema" and "own_prop schema ''$ref'' = JStr ref" and "ref \<noteq> []"
  shows "schemaToTS rt (Suc n) schema doc =
           (case resolveRef rt ref doc of Inl e \<Rightarrow> throws e | Inr resolved \<Rightarrow> schemaToTS rt n resolved doc)"
  using assms by (simp add: schemaToTS_Suc classify_def)

text \<open>
  C2. Resolution is transparent. For a reference node (a schema with a non-empty string
  \<^verbatim>\<open>$ref\<close>) whose reference resolves to \<open>X\<close> in the document, synthesis of the node is
  synthesis of \<open>X\<close>, one call deeper: the two calls have the same outcome \<open>r\<close> (the type
  text returned or the error thrown), and one returns exactly if the other does.
\<close>

theorem schemaToTS_ref_transparent:
  assumes "truthy schema" and "own_prop schema ''$ref'' = JStr ref" and "ref \<noteq> []"
    and "resolveRef rt ref doc = Inr X"
  shows "schemaToTS rt (Suc n) schema doc = schemaToTS rt n X doc
         \<and> ((\<exists>k. schemaToTS rt k schema doc = Some r) \<longleftrightarrow> (\<exists>k. schemaToTS rt k X doc = Some r))"
proof -
  have step: "schemaToTS rt (Suc k) schema doc = schemaToTS rt k X doc" for k
    using assms by (simp add: schemaToTS_reference)
  have "\<exists>k. schemaToTS rt k X doc = Some r" if "schemaToTS rt k schema doc = Some r" for k
  proof (cases k)
    case 0
    with that show ?thesis by simp
  next
    case (Suc m)
    with that step [of m] show ?thesis by auto
  qed
  moreover have "\<exists>k. schemaToTS rt k schema doc = Some r" if "schemaToTS rt k X doc = Some r" for k
    using that step [of k] by (intro exI [of _ "Suc k"]) simp
  ultimately show ?thesis using step by blast
qed

lemma resolveRef_pet: "resolveRef rt ''#/components/schemas/Pet'' pet_doc = Inr pet_schema"
  by (simp add: resolveRef_def ref_parts_def js_replace_def pet_doc_def js_get_def)

lemma schemaToTS_pet:
  "schemaToTS rt (Suc (Suc (Suc 0))) pet_schema pet_doc = returns ''{name: string; tags?: Array<string>}''"
  by (simp add: schemaToTS_Suc classify_def pet_schema_def js_or_def member_def
      own_property_order_examples)

theorem schemaToTS_ref_transparent_witness:
  "schemaToTS object_prototype_runtime (Suc (Suc (Suc (Suc 0)))) pet_ref pet_doc
     = schemaToTS object_prototype_runtime (Suc (Suc (Suc 0))) pet_schema pet_doc
   \<and> ((\<exists>k. schemaToTS object_prototype_runtime k pet_ref pet_doc = Some (Inr ''{name: string; tags?: Array<string>}''))
        \<longleftrightarrow> (\<exists>k. schemaToTS object_prototype_runtime k pet_schema pet_doc = Some (Inr ''{name: string; tags?: Array<string>}'')))"
proof -
  have "truthy pet_ref" and "own_prop pet_ref ''$ref'' = JStr ''#/components/schemas/Pet''"
    and "''#/components/schemas/Pet'' \<noteq> []"
    by (simp_all add: pet_ref_def)
  then show ?thesis
    using resolveRef_pet by (rule schemaToTS_ref_transparent)
qed


section \<open>Termination of the synthesizer\<close>

lemma member_terminates:
  assumes "\<exists>r. schemaToTS rt n (snd kv) doc = Some r"
  shows "\<exists>r. member rt n required doc kv = Some r"
proof (cases "js_includes required (fst kv)")
  case (Inl e)
  then show ?thesis by (simp add: member_def throws_def)
next
  case (Inr isRequired)
  from assms obtain r where r: "schemaToTS rt n (snd kv) doc = Some r" by blast
  show ?thesis
    by (cases r) (simp_all add: member_def Inr r bind_res_def returns_def)
qed

lemma bind_res_terminates:
  assumes "\<exists>r. m = Some r" and "\<And>x. \<exists>r. f x = Some r"
  shows "\<exists>r. bind_res m f = Some r"
proof -
  from assms(1) obtain r where r: "m = Some r" by blast
  show ?thesis using assms(2) by (cases r) (simp_all add: r bind_res_def)
qed

lemma schemaToTS_terminates:
  "visit_bounded rt n schema doc \<Longrightarrow> \<exists>r. schemaToTS rt n schema doc = Some r"
proof (induction n arbitrary: schema)
  case 0
  then show ?case by simp
next
  case (Suc n)
  show ?case
  proof (cases "classify schema")
    case (Reference ref)
    show ?thesis
    proof (cases "resolveRef rt ref doc")
      case (Inl e)
      with Reference show ?thesis by (simp add: schemaToTS_Suc throws_def)
    next
      case (Inr resolved)
      with Reference Suc.prems have "visit_bounded rt n resolved doc"
        by (simp add: calls_def)
      then have "\<exists>r. schemaToTS rt n resolved doc = Some r" by (rule Suc.IH)
      with Reference Inr show ?thesis by (simp add: schemaToTS_Suc)
    qed
  next
    case (ArrayOf items)
    with Suc.prems have "visit_bounded rt n items doc"
      by (simp add: calls_def)
    then have "\<exists>r. schemaToTS rt n items doc = Some r" by (rule Suc.IH)
    then have "\<exists>r. bind_res (schemaToTS rt n items doc) (\<lambda>t. returns (''Array<'' @ t @ ''>'')) = Some r"
      by (rule bind_res_terminates) (simp add: returns_def)
    with ArrayOf show ?thesis by (simp add: schemaToTS_Suc)
  next
    case (RecordOf props required)
    have "\<exists>r. member rt n required doc kv = Some r" if "kv \<in> set props" for kv
    proof (rule member_terminates, rule Suc.IH)
      from RecordOf Suc.prems that show "visit_bounded rt n (snd kv) doc"
        by (auto simp: calls_def list_all_iff)
    qed
    then have "\<exists>r. sequence_res (map (member rt n required doc) props) = Some r"
      by (rule sequence_res_terminates)
    then have "\<exists>r. bind_res (sequence_res (map (member rt n required doc) props))
                      (\<lambda>members. returns (''{'' @ js_join ''; '' members @ ''}'')) = Some r"
      by (rule bind_res_terminates) (simp add: returns_def)
    with RecordOf show ?thesis by (simp add: schemaToTS_Suc)
  qed (simp_all add: schemaToTS_Suc returns_def throws_def)
qed

lemma resolveRef_node: "resolveRef rt ''#/components/schemas/Node'' node_doc = Inr node_schema"
  by (simp add: resolveRef_def ref_parts_def js_replace_def node_doc_def js_get_def)

lemma classify_node_ref: "classify node_ref = Reference ''#/components/schemas/Node''"
  by (simp add: classify_def node_ref_def)

lemma classify_node_schema: "classify node_schema = RecordOf [(''next'', node_ref)] (JArr [])"
  by (simp add: classify_def node_schema_def js_or_def own_property_order_examples)

lemma node_no_result:
  "schemaToTS rt n node_schema node_doc = None \<and> schemaToTS rt n node_ref node_doc = None"
proof (induction n)
  case 0
  show ?case by simp
next
  case (Suc n)
  then have "member rt n (JArr []) node_doc (''next'', node_ref) = None"
    by (simp add: member_def)
  then have "schemaToTS rt (Suc n) node_schema node_doc = None"
    by (simp add: schemaToTS_Suc classify_node_schema)
  moreover from Suc have "schemaToTS rt (Suc n) node_ref node_doc = None"
    by (simp add: schemaToTS_Suc classify_node_ref resolveRef_node)
  ultimately show ?case by simp
qed

text \<open>
  C1, as stated, fails. \<^verbatim>\<open>Node\<close> is an object whose property \<^verbatim>\<open>next\<close> refers to
  \<^verbatim>\<open>Node\<close>. The source has no cycle guard: synthesis of \<^verbatim>\<open>Node\<close>, and of a reference to
  it, calls itself without bound and yields no type at all, neither a recursive type
  reference nor an opaque fallback.
\<close>

theorem schemaToTS_self_reference_never_returns:
  "never_returns node_schema node_doc \<and> never_returns node_ref node_doc"
  by (simp add: never_returns_def node_no_result)

text \<open>
  C1, amended. \<open>schemaToTS\<close> terminates, with a type text or a thrown \<^verbatim>\<open>TypeError\<close>, on
  every schema node from which the chains of recursive visits (to the target of a
  reference, the element schema of an array, the property schemas of an object) are
  bounded in length; more fuel does not change the outcome.
\<close>

theorem schemaToTS_terminates_when_bounded:
  "visit_bounded rt n schema doc \<Longrightarrow>
     \<exists>r. schemaToTS rt n schema doc = Some r \<and> (\<forall>k. schemaToTS rt (n + k) schema doc = Some r)"
proof -
  assume "visit_bounded rt n schema doc"
  then obtain r where r: "schemaToTS rt n schema doc = Some r"
    using schemaToTS_terminates by blast
  then have "\<forall>k. schemaToTS rt (n + k) schema doc = Some r"
    by (simp add: schemaToTS_fuel_mono)
  with r show ?thesis by blast
qed

lemma calls_pet_ref: "calls rt pet_ref pet_doc = [pet_schema]"
  by (simp add: calls_def classify_def pet_ref_def resolveRef_pet)

lemma calls_pet_schema:
  "calls rt pet_schema pet_doc =
     [JObj [(''type'', JStr ''string'')],
      JObj [(''type'', JStr ''array''), (''items'', JObj [(''type'', JStr ''string'')])]]"
  by (simp add: calls_def classify_def pet_schema_def js_or_def own_property_order_examples)

lemma calls_pet_leaves:
  "calls rt (JObj [(''type'', JStr ''string'')]) pet_doc = []"
  "calls rt (JObj [(''type'', JStr ''array''), (''items'', JObj [(''type'', JStr ''string'')])]) pet_doc
     = [JObj [(''type'', JStr ''string'')]]"
  by (simp_all add: calls_def classify_def)

lemma visit_bounded_pet_ref: "visit_bounded rt (Suc (Suc (Suc (Suc 0)))) pet_ref pet_doc"
  by (simp add: calls_pet_ref calls_pet_schema calls_pet_leaves)

theorem schemaToTS_terminates_when_bounded_witness:
  "visit_bounded object_prototype_runtime (Suc (Suc (Suc (Suc 0)))) pet_ref pet_doc
   \<and> (\<exists>r. schemaToTS object_prototype_runtime (Suc (Suc (Suc (Suc 0)))) pet_ref pet_doc = Some r
          \<and> (\<forall>k. schemaToTS object_prototype_runtime (Suc (Suc (Suc (Suc 0))) + k) pet_ref pet_doc
                 = Some r))"
  using schemaToTS_terminates_when_bounded [OF visit_bounded_pet_ref [of object_prototype_runtime]]
    visit_bounded_pet_ref [of object_prototype_runtime]
  by simp

section \<open>Broken references\<close>

lemma walk_append:
  "walk rt current (ps @ qs) = (case walk rt current ps of Inl e \<Rightarrow> Inl e | Inr c \<Rightarrow> walk rt c qs)"
  by (induction ps arbitrary: current) (simp_all split: sum.splits)

lemma walk_undefined: "walk rt JUndefined parts = (if parts = [] then Inr JUndefined else Inl TypeError)"
  by (cases parts) (simp_all add: js_get_def)

lemma not_inherited_examples:
  "object_prototype_runtime v ''Missing'' = None"
  "object_prototype_runtime v ''nothing'' = None"
  "object_prototype_runtime (JObj kvs) ''toString''
     = Some (Inr (JBuiltin ''Object.prototype.toString''))"
  "object_prototype_runtime (JBuiltin f) k = None"
  by (simp_all add: object_prototype_runtime_def object_prototype_names_def split: jsval.split)

text \<open>
  C3, as stated, fails. The document has the schema \<^verbatim>\<open>Pet\<close> and no schema \<^verbatim>\<open>Missing\<close>,
  and no object inherits a member of that name. \<^verbatim>\<open>resolveRef('#/components/schemas/Missing',
  doc)\<close> does not fail: it returns \<^verbatim>\<open>undefined\<close>, and synthesis of the reference yields
  the untyped fallback \<^verbatim>\<open>any\<close>.
\<close>

theorem resolveRef_missing_schema_is_any:
  "own_lookup (JObj [(''Pet'', pet_schema)]) ''Missing'' = None
   \<and> resolveRef object_prototype_runtime ''#/components/schemas/Missing'' pet_doc = Inr JUndefined
   \<and> schemaToTS object_prototype_runtime (Suc (Suc 0)) missing_ref pet_doc = returns ''any''"
proof -
  have r: "resolveRef object_prototype_runtime ''#/components/schemas/Missing'' pet_doc
             = Inr JUndefined"
    by (simp add: resolveRef_def ref_parts_def js_replace_def pet_doc_def js_get_def
        not_inherited_examples)
  have "classify missing_ref = Reference ''#/components/schemas/Missing''"
    by (simp add: classify_def missing_ref_def)
  then have "schemaToTS object_prototype_runtime (Suc (Suc 0)) missing_ref pet_doc = returns ''any''"
    by (simp add: schemaToTS_Suc [where n = "Suc 0"] r schemaToTS_falsy)
  with r show ?thesis by simp
qed

text \<open>
  A segment that names an inherited member is not absent: \<^verbatim>\<open>toString\<close> leads from the
  object \<^verbatim>\<open>components\<close> to the built-in function, which has no property \<^verbatim>\<open>Missing\<close>, and
  the reference resolves to \<^verbatim>\<open>undefined\<close> without an exception.
\<close>

lemma resolveRef_inherited_member:
  "resolveRef object_prototype_runtime ''#/components/toString'' pet_doc
     = Inr (JBuiltin ''Object.prototype.toString'')"
  "resolveRef object_prototype_runtime ''#/components/toString/Missing'' pet_doc = Inr JUndefined"
  by (simp_all add: resolveRef_def ref_parts_def js_replace_def pet_doc_def js_get_def
      not_inherited_examples)

text \<open>
  C3, amended. Let \<open>p\<close> be a segment of the reference that is absent: the segments \<open>ps\<close>
  before it lead from the document to a value \<open>c\<close> that has no own property \<open>p\<close> and
  inherits no member \<open>p\<close> from the built-in prototypes of the runtime. If \<open>p\<close> is the
  last segment and \<open>c\<close> is not \<^verbatim>\<open>null\<close> or \<^verbatim>\<open>undefined\<close>, \<open>resolveRef\<close> returns
  \<^verbatim>\<open>undefined\<close> and a reference node synthesizes to \<^verbatim>\<open>any\<close>. Otherwise the next property
  access throws a \<^verbatim>\<open>TypeError\<close>, and synthesis of a reference node throws it too.
\<close>

theorem resolveRef_absent_segment:
  assumes "ref_parts ref = ps @ p # rest" and "walk rt doc ps = Inr c"
    and "own_lookup c p = None" and "rt c p = None"
  shows "resolveRef rt ref doc = (if nullish c \<or> rest \<noteq> [] then Inl TypeError else Inr JUndefined)
         \<and> (truthy schema \<and> own_prop schema ''$ref'' = JStr ref \<and> ref \<noteq> []
            \<longrightarrow> schemaToTS rt (Suc (Suc n)) schema doc
                  = (if nullish c \<or> rest \<noteq> [] then throws TypeError else returns ''any''))"
proof -
  have "js_get rt c p = (if nullish c then Inl TypeError else Inr JUndefined)"
    using assms(3,4) by (simp add: js_get_def)
  then have "walk rt c (p # rest) = (if nullish c \<or> rest \<noteq> [] then Inl TypeError else Inr JUndefined)"
    by (simp add: walk_undefined)
  then have r: "resolveRef rt ref doc = (if nullish c \<or> rest \<noteq> [] then Inl TypeError else Inr JUndefined)"
    by (simp add: resolveRef_def assms(1,2) walk_append)
  then show ?thesis
    by (simp add: schemaToTS_reference schemaToTS_falsy)
qed

theorem resolveRef_absent_segment_witness:
  "resolveRef object_prototype_runtime ''#/components/nothing/Missing'' pet_doc = Inl TypeError
   \<and> schemaToTS object_prototype_runtime (Suc (Suc 0))
        (JObj [(''$ref'', JStr ''#/components/nothing/Missing'')]) pet_doc
       = throws TypeError
   \<and> resolveRef object_prototype_runtime ''#/components/schemas/Missing'' pet_doc = Inr JUndefined"
proof -
  let ?components = "JObj [(''schemas'', JObj [(''Pet'', pet_schema)])]"
  have 1: "ref_parts ''#/components/nothing/Missing'' = [''components''] @ ''nothing'' # [''Missing'']"
    by (simp add: ref_parts_def js_replace_def)
  have 2: "walk object_prototype_runtime pet_doc [''components''] = Inr ?components"
    by (simp add: pet_doc_def js_get_def)
  have 3: "own_lookup ?components ''nothing'' = None" by simp
  have 4: "object_prototype_runtime ?components ''nothing'' = None"
    by (rule not_inherited_examples)
  have 5: "ref_parts ''#/components/schemas/Missing''
             = [''components'', ''schemas''] @ ''Missing'' # []"
    by (simp add: ref_parts_def js_replace_def)
  have 6: "walk object_prototype_runtime pet_doc [''components'', ''schemas'']
             = Inr (JObj [(''Pet'', pet_schema)])"
    by (simp add: pet_doc_def js_get_def)
  have 7: "own_lookup (JObj [(''Pet'', pet_schema)]) ''Missing'' = None" by simp
  have 8: "object_prototype_runtime (JObj [(''Pet'', pet_schema)]) ''Missing'' = None"
    by (rule not_inherited_examples)
  from resolveRef_absent_segment
         [OF 1 2 3 4, of "JObj [(''$ref'', JStr ''#/components/nothing/Missing'')]" 0]
  have a: "resolveRef object_prototype_runtime ''#/components/nothing/Missing'' pet_doc = Inl TypeError"
    and b: "schemaToTS object_prototype_runtime (Suc (Suc 0))
              (JObj [(''$ref'', JStr ''#/components/nothing/Missing'')]) pet_doc = throws TypeError"
    by simp_all
  from resolveRef_absent_segment [OF 5 6 7 8, of JNull 0]
  have c: "resolveRef object_prototype_runtime ''#/components/schemas/Missing'' pet_doc = Inr JUndefined"
    by simp
  from a b c show ?thesis by simp
qed


section \<open>Object nodes\<close>

lemma member_returns:
  assumes "js_includes required key = Inr isRequired"
    and "schemaToTS rt n val doc = returns t"
  shows "member rt n required doc (key, val)
           = returns (key @ (if isRequired then [] else ''?'') @ '': '' @ t)"
  using assms by (simp add: member_def)

lemma schemaToTS_numbered_properties:
  "schemaToTS rt (Suc 0) (JObj [(''type'', JStr ''string'')]) doc = returns ''string''"
  "schemaToTS rt (Suc 0) (JObj [(''type'', JStr ''number'')]) doc = returns ''number''"
  "schemaToTS rt (Suc 0) (JObj [(''type'', JStr ''boolean'')]) doc = returns ''boolean''"
  by (simp_all add: schemaToTS_Suc classify_def)

text \<open>
  C5, as stated, fails. The object declares the properties \<^verbatim>\<open>name\<close>, \<^verbatim>\<open>2\<close>, \<^verbatim>\<open>1\<close> in
  this order. \<^verbatim>\<open>Object.entries\<close> lists the array indices first, in ascending order, so the
  synthesized record type has the members in the order \<^verbatim>\<open>1\<close>, \<^verbatim>\<open>2\<close>, \<^verbatim>\<open>name\<close>, not in the
  declared order \<^verbatim>\<open>name\<close>, \<^verbatim>\<open>2\<close>, \<^verbatim>\<open>1\<close>.
\<close>

theorem schemaToTS_lists_array_indices_first:
  "schemaToTS object_prototype_runtime (Suc (Suc 0)) numbered_schema JNull
     = returns ''{1?: boolean; 2?: number; name: string}''
   \<and> spec_record_type numbered_properties [JStr ''name''] numbered_types
     = ''{name: string; 2?: number; 1?: boolean}''"
proof -
  have "classify numbered_schema
          = RecordOf [(''1'', JObj [(''type'', JStr ''boolean'')]),
                      (''2'', JObj [(''type'', JStr ''number'')]),
                      (''name'', JObj [(''type'', JStr ''string'')])] (JArr [JStr ''name''])"
    by (simp add: classify_def numbered_schema_def numbered_properties_def js_or_def
        own_property_order_examples)
  then have "schemaToTS object_prototype_runtime (Suc (Suc 0)) numbered_schema JNull
     = returns ''{1?: boolean; 2?: number; name: string}''"
    by (simp add: schemaToTS_Suc [where n = "Suc 0"] member_def schemaToTS_numbered_properties)
  moreover have "spec_record_type numbered_properties [JStr ''name''] numbered_types
     = ''{name: string; 2?: number; 1?: boolean}''"
    by (simp add: spec_record_type_def numbered_properties_def numbered_types_def)
  ultimately show ?thesis by simp
qed

text \<open>
  C5, amended. An object node is a truthy schema without \<^verbatim>\<open>$ref\<close> whose \<^verbatim>\<open>type\<close> is
  \<^verbatim>\<open>object\<close>. Without a property map it synthesizes to the open mapping type
  \<^verbatim>\<open>Record<string, any>\<close>. With the property map \<open>props\<close>, the required list \<open>required\<close>
  (the empty list if none is declared) and property schemas that synthesize to the types
  \<open>ty\<close>, it synthesizes to the record type with one member for each declared property:
  the name, the marker \<^verbatim>\<open>?\<close> exactly if the name is not in \<open>required\<close>, a colon and the
  type. Every declared property appears exactly once. The members of the properties whose
  names are array indices come first, in ascending numeric order; the members of the other
  properties follow in the declared order. So the order is the declared one when no
  property name is an array index.
\<close>

theorem schemaToTS_object_members:
  assumes "truthy schema" and "\<not> truthy (own_prop schema ''$ref'')"
    and "own_prop schema ''type'' = JStr ''object''"
  shows "(\<not> truthy (own_prop schema ''properties'')
            \<longrightarrow> schemaToTS rt (Suc n) schema doc = returns ''Record<string, any>'')
       \<and> (own_prop schema ''properties'' = JObj props
            \<and> js_or (own_prop schema ''required'') (JArr []) = JArr required
            \<and> (\<forall>kv \<in> set props. schemaToTS rt n (snd kv) doc = returns (ty (snd kv)))
            \<longrightarrow> schemaToTS rt (Suc n) schema doc
                  = returns (''{''
                      @ js_join ''; ''
                          (map (\<lambda>(key, val).
                                  key @ (if JStr key \<in> set required then [] else ''?'')
                                  @ '': '' @ ty val) (own_property_order props))
                      @ ''}''))
       \<and> mset (own_property_order props) = mset props
       \<and> (\<exists>indices others.
             own_property_order props = indices @ others
             \<and> list_all (\<lambda>kv. is_array_index (fst kv)) indices
             \<and> sorted (map (\<lambda>kv. nat_of_string (fst kv)) indices)
             \<and> others = filter (\<lambda>kv. \<not> is_array_index (fst kv)) props)
       \<and> (list_all (\<lambda>kv. \<not> is_array_index (fst kv)) props \<longrightarrow> own_property_order props = props)"
proof (intro conjI impI)
  assume "\<not> truthy (own_prop schema ''properties'')"
  with assms have "classify schema = OpenObject"
    by (simp add: classify_def)
  then show "schemaToTS rt (Suc n) schema doc = returns ''Record<string, any>''"
    by (simp add: schemaToTS_Suc)
next
  assume a: "own_prop schema ''properties'' = JObj props
            \<and> js_or (own_prop schema ''required'') (JArr []) = JArr required
            \<and> (\<forall>kv \<in> set props. schemaToTS rt n (snd kv) doc = returns (ty (snd kv)))"
  with assms have c: "classify schema = RecordOf (own_property_order props) (JArr required)"
    by (simp add: classify_def)
  have "sequence_res (map (member rt n (JArr required) doc) (own_property_order props))
          = returns (map (\<lambda>(key, val).
                            key @ (if JStr key \<in> set required then [] else ''?'')
                            @ '': '' @ ty val) (own_property_order props))"
  proof (rule sequence_res_returns)
    fix kv assume "kv \<in> set (own_property_order props)"
    then have "kv \<in># mset (own_property_order props)" by simp
    then have "kv \<in> set props" by (simp add: mset_own_property_order)
    with a have "schemaToTS rt n (snd kv) doc = returns (ty (snd kv))" by blast
    then show "member rt n (JArr required) doc kv
                 = returns (case kv of (key, val) \<Rightarrow>
                     key @ (if JStr key \<in> set required then [] else ''?'') @ '': '' @ ty val)"
      by (cases kv) (simp add: member_returns)
  qed
  with c show "schemaToTS rt (Suc n) schema doc
                  = returns (''{''
                      @ js_join ''; ''
                          (map (\<lambda>(key, val).
                                  key @ (if JStr key \<in> set required then [] else ''?'')
                                  @ '': '' @ ty val) (own_property_order props))
                      @ ''}'')"
    by (simp add: schemaToTS_Suc)
next
  show "mset (own_property_order props) = mset props"
    by (rule mset_own_property_order)
next
  let ?indices = "sort_key (\<lambda>kv. nat_of_string (fst kv)) (filter (\<lambda>kv. is_array_index (fst kv)) props)"
  have "own_property_order props = ?indices @ filter (\<lambda>kv. \<not> is_array_index (fst kv)) props"
    by (simp add: own_property_order_def)
  moreover have "list_all (\<lambda>kv. is_array_index (fst kv)) ?indices"
    by (simp add: list_all_iff)
  moreover have "sorted (map (\<lambda>kv. nat_of_string (fst kv)) ?indices)"
    by (rule sorted_sort_key)
  ultimately show "\<exists>indices others.
             own_property_order props = indices @ others
             \<and> list_all (\<lambda>kv. is_array_index (fst kv)) indices
             \<and> sorted (map (\<lambda>kv. nat_of_string (fst kv)) indices)
             \<and> others = filter (\<lambda>kv. \<not> is_array_index (fst kv)) props"
    by blast
next
  assume "list_all (\<lambda>kv. \<not> is_array_index (fst kv)) props"
  then show "own_property_order props = props"
    by (rule own_property_order_plain)
qed

lemma schemaToTS_pet_properties:
  "schemaToTS rt (Suc (Suc 0)) (JObj [(''type'', JStr ''string'')]) pet_doc = returns ''string''"
  "schemaToTS rt (Suc (Suc 0))
     (JObj [(''type'', JStr ''array''), (''items'', JObj [(''type'', JStr ''string'')])]) pet_doc
     = returns ''Array<string>''"
  by (simp_all add: schemaToTS_Suc classify_def)

theorem schemaToTS_object_members_witness:
  "schemaToTS object_prototype_runtime (Suc (Suc (Suc 0))) pet_schema pet_doc
     = returns ''{name: string; tags?: Array<string>}''
   \<and> schemaToTS object_prototype_runtime (Suc (Suc 0)) numbered_schema JNull
     = returns ''{1?: boolean; 2?: number; name: string}''
   \<and> schemaToTS object_prototype_runtime (Suc 0) (JObj [(''type'', JStr ''object'')]) JNull
     = returns ''Record<string, any>''"
proof -
  let ?ty = "\<lambda>v. if v = JObj [(''type'', JStr ''string'')] then ''string'' else ''Array<string>''"
  let ?props = "[(''name'', JObj [(''type'', JStr ''string'')]),
                 (''tags'', JObj [(''type'', JStr ''array''),
                                 (''items'', JObj [(''type'', JStr ''string'')])])]"
  have 1: "truthy pet_schema" and 2: "\<not> truthy (own_prop pet_schema ''$ref'')"
    and 3: "own_prop pet_schema ''type'' = JStr ''object''"
    by (simp_all add: pet_schema_def)
  have 4: "own_prop pet_schema ''properties'' = JObj ?props
           \<and> js_or (own_prop pet_schema ''required'') (JArr []) = JArr [JStr ''name'']
           \<and> (\<forall>kv \<in> set ?props.
                 schemaToTS object_prototype_runtime (Suc (Suc 0)) (snd kv) pet_doc
                   = returns (?ty (snd kv)))"
    by (simp add: pet_schema_def js_or_def schemaToTS_pet_properties)
  have 5: "list_all (\<lambda>kv. \<not> is_array_index (fst kv)) ?props"
    by (simp add: array_index_examples)
  from schemaToTS_object_members
         [OF 1 2 3, where rt = object_prototype_runtime and n = "Suc (Suc 0)" and doc = pet_doc
            and props = ?props and required = "[JStr ''name'']" and ty = ?ty] 4 5
  have a: "schemaToTS object_prototype_runtime (Suc (Suc (Suc 0))) pet_schema pet_doc
     = returns ''{name: string; tags?: Array<string>}''"
    by simp
  have 6: "truthy numbered_schema" and 7: "\<not> truthy (own_prop numbered_schema ''$ref'')"
    and 8: "own_prop numbered_schema ''type'' = JStr ''object''"
    by (simp_all add: numbered_schema_def)
  have 9: "own_prop numbered_schema ''properties'' = JObj numbered_properties
           \<and> js_or (own_prop numbered_schema ''required'') (JArr []) = JArr [JStr ''name'']
           \<and> (\<forall>kv \<in> set numbered_properties.
                 schemaToTS object_prototype_runtime (Suc 0) (snd kv) JNull
                   = returns (numbered_types (snd kv)))"
    by (simp add: numbered_schema_def numbered_properties_def numbered_types_def js_or_def
        schemaToTS_numbered_properties)
  from schemaToTS_object_members
         [OF 6 7 8, where rt = object_prototype_runtime and n = "Suc 0" and doc = JNull
            and props = numbered_properties and required = "[JStr ''name'']"
            and ty = numbered_types] 9
  have b: "schemaToTS object_prototype_runtime (Suc (Suc 0)) numbered_schema JNull
     = returns ''{1?: boolean; 2?: number; name: string}''"
    by (simp add: numbered_properties_def numbered_types_def own_property_order_examples)
  have 10: "truthy (JObj [(''type'', JStr ''object'')])"
    and 11: "\<not> truthy (own_prop (JObj [(''type'', JStr ''object'')]) ''$ref'')"
    and 12: "own_prop (JObj [(''type'', JStr ''object'')]) ''type'' = JStr ''object''"
    by simp_all
  from schemaToTS_object_members
         [OF 10 11 12, where rt = object_prototype_runtime and n = 0 and doc = JNull]
  have c: "schemaToTS object_prototype_runtime (Suc 0) (JObj [(''type'', JStr ''object'')]) JNull
     = returns ''Record<string, any>''"
    by simp
  from a b c show ?thesis by simp
qed

section \<open>Signatures\<close>

lemma paramSignature_spec:
  "paramSignature pathPs queryPs rb
     (js_join ''; '' (map (\<lambda>p. p_name p @ '': '' @ ty p) pathPs))
     (js_join ''; ''
        (map (\<lambda>p. p_name p @ (if p_required p = Some True then [] else ''?'') @ '': '' @ ty p)
           queryPs))
     bodyType
   = spec_signature
       [spec_path_group pathPs ty, spec_query_param queryPs ty, spec_body_param rb bodyType]"
  by (cases rb)
    (simp_all add: paramSignature_def spec_signature_def spec_path_group_def
      spec_query_param_def spec_body_param_def Let_def)

lemma set_pathParams: "set (pathParams operation) \<subseteq> set (parameters operation)"
  and set_queryParams: "set (queryParams operation) \<subseteq> set (parameters operation)"
  by (auto simp: pathParams_def queryParams_def)

text \<open>
  C6. When the schemas of the parameters synthesize to the types \<open>ty\<close>, the request-body
  type to \<open>bodyType\<close> and the response type to \<open>rtype\<close>, \<open>generateFunction\<close> returns the
  function text whose parameter signature is the comma-join, in this order, of the
  destructured group of path parameters (if there are any), the \<^verbatim>\<open>query\<close> parameter (if
  there are query parameters) and the \<^verbatim>\<open>body\<close> parameter (if a request body is
  declared), and is the single placeholder \<^verbatim>\<open>_?: void\<close> if none of the three applies.
\<close>

theorem generateFunction_signature:
  assumes "\<forall>p \<in> set (parameters operation). schemaToTS rt n (p_schema p) doc = returns (ty p)"
    and "requestBodyType rt n (op_requestBody operation) doc = returns bodyType"
    and "responseType rt n operation doc = returns rtype"
  shows "generateFunction rt n route method operation doc
           = returns (function_text route method operation
                (spec_signature
                   [spec_path_group (pathParams operation) ty,
                    spec_query_param (queryParams operation) ty,
                    spec_body_param (op_requestBody operation) bodyType])
                rtype)
         \<and> (pathParams operation = [] \<and> queryParams operation = [] \<and> op_requestBody operation = None
              \<longrightarrow> spec_signature
                     [spec_path_group (pathParams operation) ty,
                      spec_query_param (queryParams operation) ty,
                      spec_body_param (op_requestBody operation) bodyType] = ''_?: void'')"
proof -
  have p: "pathParamTypes rt n (pathParams operation) doc
             = returns (js_join ''; '' (map (\<lambda>p. p_name p @ '': '' @ ty p) (pathParams operation)))"
    using assms(1) set_pathParams by (intro pathParamTypes_returns) blast
  have q: "queryParamTypes rt n (queryParams operation) doc
             = returns (js_join ''; ''
                 (map (\<lambda>p. p_name p @ (if p_required p = Some True then [] else ''?'') @ '': '' @ ty p)
                    (queryParams operation)))"
    using assms(1) set_queryParams by (intro queryParamTypes_returns) blast
  have "generateFunction rt n route method operation doc
           = returns (function_text route method operation
                (spec_signature
                   [spec_path_group (pathParams operation) ty,
                    spec_query_param (queryParams operation) ty,
                    spec_body_param (op_requestBody operation) bodyType])
                rtype)"
    by (simp only: generateFunction_def p q assms(2,3) bind_res_simps paramSignature_spec)
  moreover have "spec_signature
                     [spec_path_group (pathParams operation) ty,
                      spec_query_param (queryParams operation) ty,
                      spec_body_param (op_requestBody operation) bodyType] = ''_?: void''"
    if "pathParams operation = [] \<and> queryParams operation = [] \<and> op_requestBody operation = None"
    using that
    by (simp add: spec_signature_def spec_path_group_def spec_query_param_def spec_body_param_def)
  ultimately show ?thesis by blast
qed


lemma schemaToTS_pet_ref:
  "schemaToTS rt (Suc (Suc (Suc (Suc 0)))) pet_ref pet_doc
     = returns ''{name: string; tags?: Array<string>}''"
proof -
  have "classify pet_ref = Reference ''#/components/schemas/Pet''"
    by (simp add: classify_def pet_ref_def)
  then show ?thesis
    by (simp add: schemaToTS_Suc [where n = "Suc (Suc (Suc 0))"] resolveRef_pet schemaToTS_pet)
qed

lemma schemaToTS_integer:
  "schemaToTS rt (Suc n) (JObj [(''type'', JStr ''integer'')]) doc = returns ''number''"
  by (simp add: schemaToTS_Suc classify_def)

lemma schemaToTS_string:
  "schemaToTS rt (Suc n) (JObj [(''type'', JStr ''string'')]) doc = returns ''string''"
  by (simp add: schemaToTS_Suc classify_def)

lemma update_pet_parameters:
  "parameters update_pet = [id_param, name_param, limit_param]"
  "pathParams update_pet = [id_param]"
  "queryParams update_pet = [name_param, limit_param]"
  "op_requestBody update_pet = Some pet_body"
  by (simp_all add: parameters_def pathParams_def queryParams_def update_pet_def
      id_param_def name_param_def limit_param_def)

lemma update_pet_types:
  "requestBodyType rt (Suc (Suc (Suc (Suc 0)))) (op_requestBody update_pet) pet_doc
     = returns ''{name: string; tags?: Array<string>}''"
  "responseType rt (Suc (Suc (Suc (Suc 0)))) update_pet pet_doc
     = returns ''{name: string; tags?: Array<string>}''"
proof -
  show "requestBodyType rt (Suc (Suc (Suc (Suc 0)))) (op_requestBody update_pet) pet_doc
     = returns ''{name: string; tags?: Array<string>}''"
    by (simp add: update_pet_parameters requestBodyType_def pet_body_def schemaToTS_pet_ref)
  have "responseSchema update_pet = pet_ref"
    by (simp add: responseSchema_def update_pet_def)
  moreover have "truthy pet_ref" by (simp add: pet_ref_def)
  ultimately show "responseType rt (Suc (Suc (Suc (Suc 0)))) update_pet pet_doc
     = returns ''{name: string; tags?: Array<string>}''"
    by (simp add: responseType_def schemaToTS_pet_ref)
qed

lemma plain_operation_parts:
  "parameters plain_operation = []" "pathParams plain_operation = []"
  "queryParams plain_operation = []" "op_requestBody plain_operation = None"
  "responseSchema plain_operation = JUndefined"
  by (simp_all add: parameters_def pathParams_def queryParams_def plain_operation_def
      responseSchema_def)

theorem generateFunction_signature_witness:
  "generateFunction object_prototype_runtime (Suc (Suc (Suc (Suc 0)))) ''/pets/{id}'' ''put'' update_pet pet_doc
     = returns (function_text ''/pets/{id}'' ''put'' update_pet
         ''{ id }: { id: number }, query: { name: string; limit?: number }, body: {name: string; tags?: Array<string>}''
         ''{name: string; tags?: Array<string>}'')
   \<and> generateFunction object_prototype_runtime (Suc 0) ''/Users'' ''get'' plain_operation JNull
     = returns (function_text ''/Users'' ''get'' plain_operation ''_?: void'' ''any'')"
proof -
  let ?ty = "\<lambda>p. if p_name p = ''name'' then ''string'' else ''number''"
  have "\<forall>p \<in> set (parameters update_pet).
          schemaToTS object_prototype_runtime (Suc (Suc (Suc (Suc 0)))) (p_schema p) pet_doc = returns (?ty p)"
    by (simp add: update_pet_parameters id_param_def name_param_def limit_param_def
        schemaToTS_integer schemaToTS_string)
  from generateFunction_signature
         [OF this update_pet_types, of "''/pets/{id}''" "''put''"]
  have 1: "generateFunction object_prototype_runtime (Suc (Suc (Suc (Suc 0)))) ''/pets/{id}'' ''put'' update_pet pet_doc
     = returns (function_text ''/pets/{id}'' ''put'' update_pet
         ''{ id }: { id: number }, query: { name: string; limit?: number }, body: {name: string; tags?: Array<string>}''
         ''{name: string; tags?: Array<string>}'')"
    by (simp add: update_pet_parameters spec_signature_def spec_path_group_def
        spec_query_param_def spec_body_param_def id_param_def name_param_def limit_param_def)
  have a: "\<forall>p \<in> set (parameters plain_operation).
          schemaToTS object_prototype_runtime (Suc 0) (p_schema p) JNull = returns (?ty p)"
    by (simp add: plain_operation_parts)
  have b: "requestBodyType object_prototype_runtime (Suc 0) (op_requestBody plain_operation) JNull = returns ''undefined''"
    by (simp add: plain_operation_parts requestBodyType_def)
  have c: "responseType object_prototype_runtime (Suc 0) plain_operation JNull = returns ''any''"
    by (simp add: plain_operation_parts responseType_def)
  from generateFunction_signature [OF a b c, of "''/Users''" "''get''"]
  have 2: "generateFunction object_prototype_runtime (Suc 0) ''/Users'' ''get'' plain_operation JNull
     = returns (function_text ''/Users'' ''get'' plain_operation ''_?: void'' ''any'')"
    by (simp add: plain_operation_parts)
  from 1 2 show ?thesis by simp
qed

section \<open>Path parameters are always required\<close>

text \<open>
  C10. The members of the path-parameter group carry no optional marker, whatever the
  \<^verbatim>\<open>required\<close> flags of the path parameters are: with any flags \<open>flag\<close> in place of
  the declared ones, \<open>pathParamTypes\<close> gives the name, a colon and the synthesized type of
  each parameter, and the signature starts with the group built from the names and that
  text. A query parameter gets the marker \<^verbatim>\<open>?\<close> exactly if its flag is not \<^verbatim>\<open>true\<close>.
\<close>

theorem pathParamTypes_ignores_required:
  assumes "\<forall>p \<in> set ps. schemaToTS rt n (p_schema p) doc = returns (ty (p_schema p))"
  shows "pathParamTypes rt n (map (\<lambda>p. p\<lparr>p_required := flag p\<rparr>) ps) doc
           = returns (js_join ''; '' (map (\<lambda>p. p_name p @ '': '' @ ty (p_schema p)) ps))
       \<and> queryParamTypes rt n ps doc
           = returns (js_join ''; ''
               (map (\<lambda>p. p_name p @ (if p_required p = Some True then [] else ''?'')
                           @ '': '' @ ty (p_schema p)) ps))
       \<and> (ps \<noteq> [] \<longrightarrow>
            (\<exists>rest. paramSignature ps qs rb pathTypes queryTypes bodyType
                     = ''{ '' @ js_join '', '' (map p_name ps) @ '' }: { '' @ pathTypes @ '' }'' @ rest))"
proof (intro conjI impI)
  have "pathParamTypes rt n (map (\<lambda>p. p\<lparr>p_required := flag p\<rparr>) ps) doc
          = returns (js_join ''; ''
              (map (\<lambda>p. p_name p @ '': '' @ ty (p_schema p)) (map (\<lambda>p. p\<lparr>p_required := flag p\<rparr>) ps)))"
    using assms by (intro pathParamTypes_returns) auto
  then show "pathParamTypes rt n (map (\<lambda>p. p\<lparr>p_required := flag p\<rparr>) ps) doc
           = returns (js_join ''; '' (map (\<lambda>p. p_name p @ '': '' @ ty (p_schema p)) ps))"
    by (simp add: comp_def)
next
  show "queryParamTypes rt n ps doc
           = returns (js_join ''; ''
               (map (\<lambda>p. p_name p @ (if p_required p = Some True then [] else ''?'')
                           @ '': '' @ ty (p_schema p)) ps))"
    using assms by (intro queryParamTypes_returns) auto
next
  assume "ps \<noteq> []"
  then show "\<exists>rest. paramSignature ps qs rb pathTypes queryTypes bodyType
                     = ''{ '' @ js_join '', '' (map p_name ps) @ '' }: { '' @ pathTypes @ '' }'' @ rest"
    by (simp add: paramSignature_def Let_def)
qed

theorem pathParamTypes_ignores_required_witness:
  "pathParamTypes object_prototype_runtime (Suc 0) [id_param\<lparr>p_required := None\<rparr>] JNull = returns ''id: number''
   \<and> queryParamTypes object_prototype_runtime (Suc 0) [id_param] JNull = returns ''id: number''
   \<and> (\<exists>rest. paramSignature [id_param] [] None ''id: number'' [] ''undefined''
               = ''{ id }: { id: number }'' @ rest)"
proof -
  let ?ty = "\<lambda>v::jsval. ''number''"
  have "\<forall>p \<in> set [id_param]. schemaToTS object_prototype_runtime (Suc 0) (p_schema p) JNull = returns (?ty (p_schema p))"
    by (simp add: id_param_def schemaToTS_integer)
  from pathParamTypes_ignores_required
         [OF this, where flag = "\<lambda>p. None" and qs = "[]" and rb = None
            and pathTypes = "''id: number''" and queryTypes = "[]" and bodyType = "''undefined''"]
  show ?thesis
    by (simp add: id_param_def)
qed


section \<open>Naming\<close>












section \<open>URL construction\<close>

text \<open>
  C7. The claim holds of the code only where each placeholder occurs once.
  \<^verbatim>\<open>url.replace(`{id}`, ...)\<close> with a string pattern replaces the first occurrence only:
  for the path \<^verbatim>\<open>/orgs/{id}/members/{id}\<close> with the path parameter \<^verbatim>\<open>id\<close>, the second
  \<^verbatim>\<open>{id}\<close> is left in the emitted URL.
\<close>

theorem url_second_placeholder_survives:
  "url ''/orgs/{id}/members/{id}'' [id_param] = ''${process.env.API_URL}/orgs/${id}/members/{id}''"
  by (simp add: url_def API_URL_def id_param_def js_replace_def)


section \<open>Result type and failure policy of the emitted function\<close>






















end
